theory Spec2Isabelle
  imports Main "HOL-Library.AList"
begin

section \<open>Thrown values\<close>

text \<open>
  The Gmail module declares
  \<^verbatim>\<open>class GmailError extends Error { constructor(message: string, public code: string, public resolution: string) }\<close>.
  The draft service also constructs it with two arguments; the property
  \<^verbatim>\<open>resolution\<close> is then undefined at run time, hence the option. The
  declarations of \<^verbatim>\<open>AccountError\<close> and \<^verbatim>\<open>CalendarError\<close> are not
  in the sources; the tool server reads their \<^verbatim>\<open>message\<close> and
  \<^verbatim>\<open>resolution\<close> as it does for \<^verbatim>\<open>GmailError\<close>, and they are given
  the same shape.
\<close>

record module_error =
  message :: string
  code :: string
  resolution :: "string option"

datatype thrown =
    AccountError module_error
  | GmailError module_error
  | CalendarError module_error
  | PlainError string
  | NonError

text \<open>\<^verbatim>\<open>error instanceof Error\<close>\<close>

fun instanceofError :: "thrown \<Rightarrow> bool" where
  "instanceofError NonError = False"
| "instanceofError _ = True"

text \<open>\<^verbatim>\<open>error.message\<close> of a thrown value that is an \<^verbatim>\<open>Error\<close>\<close>

fun errorMessage :: "thrown \<Rightarrow> string" where
  "errorMessage (AccountError e) = message e"
| "errorMessage (GmailError e) = message e"
| "errorMessage (CalendarError e) = message e"
| "errorMessage (PlainError m) = m"
| "errorMessage NonError = []"

text \<open>\<^verbatim>\<open>new GmailError(message, code)\<close> and \<^verbatim>\<open>new GmailError(message, code, resolution)\<close>\<close>

definition newGmailError2 :: "string \<Rightarrow> string \<Rightarrow> thrown" where
  "newGmailError2 m c = GmailError \<lparr>message = m, code = c, resolution = None\<rparr>"

definition newGmailError3 :: "string \<Rightarrow> string \<Rightarrow> string \<Rightarrow> thrown" where
  "newGmailError3 m c r = GmailError \<lparr>message = m, code = c, resolution = Some r\<rparr>"

text \<open>
  The \<^verbatim>\<open>catch (error)\<close> block shared by the draft operations:
  \<^verbatim>\<open>throw new GmailError(msg, code, error instanceof Error ? error.message : 'Unknown error')\<close>
\<close>

definition rethrow :: "string \<Rightarrow> string \<Rightarrow> thrown \<Rightarrow> thrown" where
  "rethrow m c e =
     newGmailError3 m c (if instanceofError e then errorMessage e else ''Unknown error'')"

section \<open>JavaScript helpers\<close>

text \<open>Truthiness of an optional string: undefined and the empty string are falsy.\<close>

fun truthy :: "string option \<Rightarrow> bool" where
  "truthy None = False"
| "truthy (Some s) = (s \<noteq> [])"

text \<open>\<^verbatim>\<open>Array.prototype.join\<close> on an array of strings\<close>

fun join :: "string \<Rightarrow> string list \<Rightarrow> string" where
  "join sep [] = []"
| "join sep [x] = x"
| "join sep (x # y # ys) = x @ sep @ join sep (y # ys)"

text \<open>Decimal rendering of a non-negative integer, as a template literal does.\<close>

definition digit_char :: "nat \<Rightarrow> char" where
  "digit_char d = char_of (48 + d)"

fun decimal :: "nat \<Rightarrow> string" where
  "decimal n = (if n < 10 then [digit_char n] else decimal (n div 10) @ [digit_char (n mod 10)])"

declare decimal.simps [simp del]

section \<open>The draft service (modules/gmail/services/draft.ts)\<close>

subsection \<open>Data\<close>

text \<open>An element of \<^verbatim>\<open>DraftData.attachments\<close>\<close>

record draft_attachment =
  driveFileId :: "string option"
  content :: "string option"
  name :: string
  mimeType :: string
  size :: "nat option"

record draft_data =
  to :: "string list"
  subject :: string
  body :: string
  cc :: "string list option"
  bcc :: "string list option"
  threadId :: "string option"
  attachments :: "draft_attachment list option"

record manage_draft_params =
  email :: string
  action :: string
  draftId :: "string option"
  data :: "draft_data option"

text \<open>The argument that \<^verbatim>\<open>createDraft\<close> builds for \<^verbatim>\<open>processAttachment\<close>\<close>

record attachment_metadata =
  meta_name :: string
  meta_mimeType :: string
  meta_size :: nat

record attachment_source =
  src_type :: string
  src_fileId :: "string option"
  src_content :: "string option"
  src_metadata :: attachment_metadata

text \<open>
  What the two collaborators return, as far as the draft service reads it:
  \<^verbatim>\<open>result.success\<close>, \<^verbatim>\<open>result.attachment\<close> with its
  \<^verbatim>\<open>id\<close>, \<^verbatim>\<open>name\<close> and \<^verbatim>\<open>mimeType\<close>, and
  \<^verbatim>\<open>fileResult.success\<close>, \<^verbatim>\<open>fileResult.data\<close>.
\<close>

record stored_attachment =
  att_id :: string
  att_name :: string
  att_mimeType :: string

record process_result =
  success :: bool
  attachment :: "stored_attachment option"

record download_result =
  dl_success :: bool
  dl_data :: string

text \<open>
  The collaborators are functions of their arguments that either throw or return:
  the attachment service, the drive service and the Gmail API client. The requests sent
  to the Gmail API are recorded, in order, next to the outcome of each operation.
\<close>

record attachment_service =
  processAttachment :: "string \<Rightarrow> attachment_source \<Rightarrow> string \<Rightarrow> thrown + process_result"

record drive_service =
  downloadFile :: "string \<Rightarrow> string \<Rightarrow> thrown + download_result"

record gmail_message =
  msg_id :: "string option"
  msg_threadId :: "string option"
  msg_labelIds :: "string list option"

record gmail_draft =
  draft_id :: "string option"
  draft_message :: "gmail_message option"

text \<open>
  An entry of the list response; the source reads its identifier as
  \<^verbatim>\<open>draft.id!\<close>.
\<close>

record gmail_draft_list =
  drafts :: "string list option"
  nextPageToken :: "string option"
  resultSizeEstimate :: "nat option"

datatype gmail_request =
    DraftsCreate string "string option"
  | DraftsList
  | DraftsGet string
  | DraftsUpdate string string
  | DraftsDelete string
  | DraftsSend string

record gmail_client =
  users_drafts_create :: "string \<Rightarrow> string option \<Rightarrow> thrown + gmail_draft"
  users_drafts_list :: "thrown + gmail_draft_list"
  users_drafts_get :: "string \<Rightarrow> thrown + gmail_draft"
  users_drafts_update :: "string \<Rightarrow> string \<Rightarrow> thrown + gmail_draft"
  users_drafts_delete :: "string \<Rightarrow> thrown + unit"
  users_drafts_send :: "string \<Rightarrow> thrown + gmail_message"

text \<open>
  The platform: \<^verbatim>\<open>Date.now()\<close>, \<^verbatim>\<open>new Date().toISOString()\<close>,
  \<^verbatim>\<open>Buffer.from(x).toString('base64')\<close> and the constant
  \<^verbatim>\<open>ATTACHMENT_FOLDERS.OUTGOING\<close>, whose declaration is not in the sources.
\<close>

record platform =
  dateNow :: nat
  isoNow :: string
  base64 :: "string \<Rightarrow> string"
  outgoingFolder :: string

record draft_service =
  gmailClient :: "gmail_client option"
  attachmentService :: attachment_service
  driveService :: drive_service

text \<open>The results of the operations\<close>

record message_summary =
  sum_id :: "string option"
  sum_threadId :: "string option"
  sum_labelIds :: "string list"

record draft_summary =
  res_id :: "string option"
  res_message :: message_summary
  res_updated :: string

record draft_written =
  wr_id :: "string option"
  wr_message :: message_summary
  wr_updated :: string
  wr_attachments :: "stored_attachment list"

record draft_listing =
  ls_drafts :: "draft_summary list"
  ls_nextPageToken :: "string option"
  ls_resultSizeEstimate :: nat

record sent_message =
  sent_messageId :: "string option"
  sent_threadId :: "string option"
  sent_labelIds :: "string list option"

type_synonym 'a outcome = "gmail_request list \<times> (thrown + 'a)"

subsection \<open>Construction and client\<close>

text \<open>The constructor leaves \<^verbatim>\<open>gmailClient\<close> unset.\<close>

definition newDraftService :: "attachment_service \<Rightarrow> drive_service \<Rightarrow> draft_service" where
  "newDraftService a d = \<lparr>gmailClient = None, attachmentService = a, driveService = d\<rparr>"

definition updateClient :: "draft_service \<Rightarrow> gmail_client \<Rightarrow> draft_service" where
  "updateClient svc client = svc\<lparr>gmailClient := Some client\<rparr>"

definition ensureClient :: "draft_service \<Rightarrow> thrown + gmail_client" where
  "ensureClient svc =
     (case gmailClient svc of
        None \<Rightarrow> Inl (newGmailError3 ''Gmail client not initialized'' ''CLIENT_ERROR''
                       ''Please ensure the service is initialized'')
      | Some client \<Rightarrow> Inr client)"

subsection \<open>Reading, deleting and sending\<close>

text \<open>
  \<^verbatim>\<open>{ id: m?.id!, threadId: m?.threadId!, labelIds: m?.labelIds || [] }\<close>
\<close>

definition summarize :: "gmail_message option \<Rightarrow> message_summary" where
  "summarize m =
     \<lparr>sum_id = (case m of None \<Rightarrow> None | Some x \<Rightarrow> msg_id x),
      sum_threadId = (case m of None \<Rightarrow> None | Some x \<Rightarrow> msg_threadId x),
      sum_labelIds =
        (case (case m of None \<Rightarrow> None | Some x \<Rightarrow> msg_labelIds x) of
           None \<Rightarrow> [] | Some l \<Rightarrow> l)\<rparr>"

definition getDraft :: "draft_service \<Rightarrow> platform \<Rightarrow> string \<Rightarrow> string \<Rightarrow> draft_summary outcome" where
  "getDraft svc pf em did =
     (case ensureClient svc of
        Inl e \<Rightarrow> ([], Inl (rethrow ''Failed to get draft'' ''GET_ERROR'' e))
      | Inr client \<Rightarrow>
          (case users_drafts_get client did of
             Inl e \<Rightarrow> ([DraftsGet did], Inl (rethrow ''Failed to get draft'' ''GET_ERROR'' e))
           | Inr d \<Rightarrow>
               ([DraftsGet did],
                Inr \<lparr>res_id = draft_id d, res_message = summarize (draft_message d),
                     res_updated = isoNow pf\<rparr>)))"

text \<open>
  \<^verbatim>\<open>Promise.all\<close> over the started calls: every call has been made; the result
  is the list of values, or a rejection when one of them rejects.
\<close>

fun promiseAll :: "(thrown + 'a) list \<Rightarrow> thrown + 'a list" where
  "promiseAll [] = Inr []"
| "promiseAll (Inl e # rs) = Inl e"
| "promiseAll (Inr v # rs) = (case promiseAll rs of Inl e \<Rightarrow> Inl e | Inr vs \<Rightarrow> Inr (v # vs))"

definition listDrafts :: "draft_service \<Rightarrow> platform \<Rightarrow> string \<Rightarrow> draft_listing outcome" where
  "listDrafts svc pf em =
     (case ensureClient svc of
        Inl e \<Rightarrow> ([], Inl (rethrow ''Failed to list drafts'' ''LIST_ERROR'' e))
      | Inr client \<Rightarrow>
          (case users_drafts_list client of
             Inl e \<Rightarrow> ([DraftsList], Inl (rethrow ''Failed to list drafts'' ''LIST_ERROR'' e))
           | Inr listed \<Rightarrow>
               (let started = map (getDraft svc pf em)
                                (case drafts listed of None \<Rightarrow> [] | Some ds \<Rightarrow> ds);
                    reqs = DraftsList # concat (map fst started)
                in case promiseAll (map snd started) of
                     Inl e \<Rightarrow> (reqs, Inl (rethrow ''Failed to list drafts'' ''LIST_ERROR'' e))
                   | Inr ds \<Rightarrow>
                       (reqs,
                        Inr \<lparr>ls_drafts = ds,
                             ls_nextPageToken =
                               (if truthy (nextPageToken listed) then nextPageToken listed else None),
                             ls_resultSizeEstimate =
                               (case resultSizeEstimate listed of None \<Rightarrow> 0 | Some n \<Rightarrow> n)\<rparr>))))"

definition deleteDraft :: "draft_service \<Rightarrow> platform \<Rightarrow> string \<Rightarrow> string \<Rightarrow> unit outcome" where
  "deleteDraft svc pf em did =
     (case ensureClient svc of
        Inl e \<Rightarrow> ([], Inl (rethrow ''Failed to delete draft'' ''DELETE_ERROR'' e))
      | Inr client \<Rightarrow>
          (case users_drafts_delete client did of
             Inl e \<Rightarrow> ([DraftsDelete did], Inl (rethrow ''Failed to delete draft'' ''DELETE_ERROR'' e))
           | Inr u \<Rightarrow> ([DraftsDelete did], Inr ())))"

definition sendDraft :: "draft_service \<Rightarrow> platform \<Rightarrow> string \<Rightarrow> string \<Rightarrow> sent_message outcome" where
  "sendDraft svc pf em did =
     (case ensureClient svc of
        Inl e \<Rightarrow> ([], Inl (rethrow ''Failed to send draft'' ''SEND_ERROR'' e))
      | Inr client \<Rightarrow>
          (case users_drafts_send client did of
             Inl e \<Rightarrow> ([DraftsSend did], Inl (rethrow ''Failed to send draft'' ''SEND_ERROR'' e))
           | Inr m \<Rightarrow>
               ([DraftsSend did],
                Inr \<lparr>sent_messageId = msg_id m, sent_threadId = msg_threadId m,
                     sent_labelIds = msg_labelIds m\<rparr>)))"

subsection \<open>Creating and updating\<close>

definition NL :: string where
  "NL = [CHR 0x0A]"

definition DQ :: string where
  "DQ = [CHR 0x22]"

text \<open>The object handed to \<^verbatim>\<open>processAttachment\<close> for one attachment of the draft data\<close>

definition toSource :: "draft_attachment \<Rightarrow> attachment_source" where
  "toSource a =
     \<lparr>src_type = (if truthy (driveFileId a) then ''drive'' else ''local''),
      src_fileId = driveFileId a,
      src_content = content a,
      src_metadata =
        \<lparr>meta_name = name a, meta_mimeType = mimeType a,
         meta_size = (case size a of None \<Rightarrow> 0 | Some n \<Rightarrow> n)\<rparr>\<rparr>"

text \<open>
  The first loop, \<^verbatim>\<open>for (const attachment of data.attachments)\<close>, with
  \<^verbatim>\<open>processedAttachments\<close> as the accumulator.
\<close>

fun processAttachments ::
  "draft_service \<Rightarrow> platform \<Rightarrow> string \<Rightarrow> draft_attachment list \<Rightarrow> stored_attachment list
     \<Rightarrow> thrown + stored_attachment list" where
  "processAttachments svc pf em [] acc = Inr acc"
| "processAttachments svc pf em (a # as) acc =
     (case processAttachment (attachmentService svc) em (toSource a) (outgoingFolder pf) of
        Inl e \<Rightarrow> Inl e
      | Inr result \<Rightarrow>
          processAttachments svc pf em as
            (case attachment result of
               Some x \<Rightarrow> (if success result then acc @ [x] else acc)
             | None \<Rightarrow> acc))"

definition boundaryOf :: "platform \<Rightarrow> string" where
  "boundaryOf pf = ''boundary_'' @ decimal (dateNow pf)"

definition optionalHeader :: "string \<Rightarrow> string list option \<Rightarrow> string" where
  "optionalHeader h xs =
     (case xs of
        None \<Rightarrow> []
      | Some l \<Rightarrow> (if length l \<noteq> 0 then h @ '': '' @ join '', '' l @ NL else []))"

text \<open>The initial \<^verbatim>\<open>messageParts\<close>\<close>

definition headParts :: "string \<Rightarrow> draft_data \<Rightarrow> string list" where
  "headParts boundary d =
     [''MIME-Version: 1.0'' @ NL,
      ''Content-Type: multipart/mixed; boundary='' @ DQ @ boundary @ DQ @ NL,
      ''To: '' @ join '', '' (to d) @ NL,
      optionalHeader ''Cc'' (cc d),
      optionalHeader ''Bcc'' (bcc d),
      ''Subject: '' @ subject d @ NL @ NL,
      ''--'' @ boundary @ NL,
      ''Content-Type: text/plain; charset='' @ DQ @ ''UTF-8'' @ DQ @ NL,
      ''Content-Transfer-Encoding: 7bit'' @ NL @ NL,
      body d,
      NL]"

text \<open>What one downloaded attachment pushes onto \<^verbatim>\<open>messageParts\<close>\<close>

definition attachmentPart :: "platform \<Rightarrow> string \<Rightarrow> stored_attachment \<Rightarrow> string \<Rightarrow> string list" where
  "attachmentPart pf boundary a bytes =
     [''--'' @ boundary @ NL,
      ''Content-Type: '' @ att_mimeType a @ NL,
      ''Content-Transfer-Encoding: base64'' @ NL,
      ''Content-Disposition: attachment; filename='' @ DQ @ att_name a @ DQ @ NL @ NL,
      base64 pf bytes,
      NL]"

text \<open>
  The second loop, \<^verbatim>\<open>for (const attachment of processedAttachments)\<close>, with
  \<^verbatim>\<open>messageParts\<close> as the accumulator.
\<close>

fun addAttachments ::
  "draft_service \<Rightarrow> platform \<Rightarrow> string \<Rightarrow> string \<Rightarrow> stored_attachment list \<Rightarrow> string list
     \<Rightarrow> thrown + string list" where
  "addAttachments svc pf em boundary [] parts = Inr parts"
| "addAttachments svc pf em boundary (a # as) parts =
     (case downloadFile (driveService svc) em (att_id a) of
        Inl e \<Rightarrow> Inl e
      | Inr fileResult \<Rightarrow>
          addAttachments svc pf em boundary as
            (if dl_success fileResult
             then parts @ attachmentPart pf boundary a (dl_data fileResult)
             else parts))"

text \<open>
  The part of both operations before the API call: the processed attachments and the
  full message, or what was thrown on the way.
\<close>

definition buildMessage ::
  "draft_service \<Rightarrow> platform \<Rightarrow> string \<Rightarrow> draft_data
     \<Rightarrow> thrown + (stored_attachment list \<times> string)" where
  "buildMessage svc pf em d =
     (case processAttachments svc pf em
             (case attachments d of None \<Rightarrow> [] | Some l \<Rightarrow> l) [] of
        Inl e \<Rightarrow> Inl e
      | Inr processedAttachments \<Rightarrow>
          (let boundary = boundaryOf pf in
           case addAttachments svc pf em boundary processedAttachments (headParts boundary d) of
             Inl e \<Rightarrow> Inl e
           | Inr messageParts \<Rightarrow>
               Inr (processedAttachments,
                    concat (messageParts @ [''--'' @ boundary @ ''--'']))))"

definition written :: "platform \<Rightarrow> gmail_draft \<Rightarrow> stored_attachment list \<Rightarrow> draft_written" where
  "written pf d processedAttachments =
     \<lparr>wr_id = draft_id d, wr_message = summarize (draft_message d),
      wr_updated = isoNow pf, wr_attachments = processedAttachments\<rparr>"

definition createDraft :: "draft_service \<Rightarrow> platform \<Rightarrow> string \<Rightarrow> draft_data \<Rightarrow> draft_written outcome" where
  "createDraft svc pf em d =
     (case ensureClient svc of
        Inl e \<Rightarrow> ([], Inl (rethrow ''Failed to create draft'' ''CREATE_ERROR'' e))
      | Inr client \<Rightarrow>
          (case buildMessage svc pf em d of
             Inl e \<Rightarrow> ([], Inl (rethrow ''Failed to create draft'' ''CREATE_ERROR'' e))
           | Inr (processedAttachments, fullMessage) \<Rightarrow>
               (let raw = base64 pf fullMessage in
                case users_drafts_create client raw (threadId d) of
                  Inl e \<Rightarrow>
                    ([DraftsCreate raw (threadId d)],
                     Inl (rethrow ''Failed to create draft'' ''CREATE_ERROR'' e))
                | Inr draft \<Rightarrow>
                    ([DraftsCreate raw (threadId d)],
                     Inr (written pf draft processedAttachments)))))"

definition updateDraft ::
  "draft_service \<Rightarrow> platform \<Rightarrow> string \<Rightarrow> string \<Rightarrow> draft_data \<Rightarrow> draft_written outcome" where
  "updateDraft svc pf em did d =
     (case ensureClient svc of
        Inl e \<Rightarrow> ([], Inl (rethrow ''Failed to update draft'' ''UPDATE_ERROR'' e))
      | Inr client \<Rightarrow>
          (case buildMessage svc pf em d of
             Inl e \<Rightarrow> ([], Inl (rethrow ''Failed to update draft'' ''UPDATE_ERROR'' e))
           | Inr (processedAttachments, fullMessage) \<Rightarrow>
               (let raw = base64 pf fullMessage in
                case users_drafts_update client did raw of
                  Inl e \<Rightarrow>
                    ([DraftsUpdate did raw],
                     Inl (rethrow ''Failed to update draft'' ''UPDATE_ERROR'' e))
                | Inr draft \<Rightarrow>
                    ([DraftsUpdate did raw],
                     Inr (written pf draft processedAttachments)))))"

subsection \<open>The dispatcher\<close>

datatype draft_result =
    Written draft_written
  | Listing draft_listing
  | Summary draft_summary
  | Deleted
  | Sent sent_message

definition returning :: "('a \<Rightarrow> draft_result) \<Rightarrow> 'a outcome \<Rightarrow> draft_result outcome" where
  "returning f r = (fst r, map_sum id f (snd r))"

definition manageDraft :: "draft_service \<Rightarrow> platform \<Rightarrow> manage_draft_params \<Rightarrow> draft_result outcome" where
  "manageDraft svc pf params =
     (if action params = ''create'' then
        (case data params of
           None \<Rightarrow>
             ([], Inl (newGmailError2 ''Draft data is required for create action'' ''INVALID_PARAMS''))
         | Some d \<Rightarrow> returning Written (createDraft svc pf (email params) d))
      else if action params = ''read'' then
        (if \<not> truthy (draftId params)
         then returning Listing (listDrafts svc pf (email params))
         else returning Summary (getDraft svc pf (email params) (the (draftId params))))
      else if action params = ''update'' then
        (if \<not> truthy (draftId params) \<or> data params = None
         then ([], Inl (newGmailError2 ''Draft ID and data are required for update action''
                          ''INVALID_PARAMS''))
         else returning Written
                (updateDraft svc pf (email params) (the (draftId params)) (the (data params))))
      else if action params = ''delete'' then
        (if \<not> truthy (draftId params)
         then ([], Inl (newGmailError2 ''Draft ID is required for delete action'' ''INVALID_PARAMS''))
         else returning (\<lambda>u. Deleted) (deleteDraft svc pf (email params) (the (draftId params))))
      else if action params = ''send'' then
        (if \<not> truthy (draftId params)
         then ([], Inl (newGmailError2 ''Draft ID is required for send action'' ''INVALID_PARAMS''))
         else returning Sent (sendDraft svc pf (email params) (the (draftId params))))
      else
        ([], Inl (newGmailError3 ''Invalid action'' ''INVALID_PARAMS''
                    ''Supported actions are: create, read, update, delete, send'')))"

section \<open>The tool server (index.ts)\<close>

subsection \<open>The account manager as the handlers use it\<close>

text \<open>
  The account module is not part of the sources at hand; the handlers reach it through
  \<^verbatim>\<open>getAccountManager()\<close>. Its methods are parameters here: each takes the
  state of the module and of the world behind it, and throws or returns, with the new
  state. The records below hold what the handlers read
  (\<^verbatim>\<open>tokenStatus.valid\<close>, \<^verbatim>\<open>tokenStatus.token\<close>,
  \<^verbatim>\<open>tokenStatus.reason\<close>, \<^verbatim>\<open>token.refresh_token\<close>) and the
  attributes that section 3 of the specification gives to credentials and accounts.
\<close>

record token =
  access_token :: string
  refresh_token :: "string option"
  expiry :: nat
  granted_scopes :: "string list"

record token_status =
  valid :: bool
  token :: "token option"
  reason :: "string option"

record account =
  acc_email :: string
  acc_category :: "string option"
  acc_description :: "string option"
  acc_created :: nat

record credential_summary =
  cs_expiry :: nat
  cs_scopes :: "string list"

record account_listing =
  la_account :: account
  la_credential :: "credential_summary option"

type_synonym ('a, 's) action = "'s \<Rightarrow> (thrown + 'a) \<times> 's"

record 's account_manager =
  listAccounts :: "(account_listing list, 's) action"
  validateAccount :: "string \<Rightarrow> string option \<Rightarrow> string option \<Rightarrow> (account, 's) action"
  validateToken :: "string \<Rightarrow> string list \<Rightarrow> (token_status, 's) action"
  refreshToken :: "string option \<Rightarrow> (token, 's) action"
  saveToken :: "string \<Rightarrow> token \<Rightarrow> (unit, 's) action"
  getTokenFromCode :: "string \<Rightarrow> (token, 's) action"
  generateAuthUrl :: "string list \<Rightarrow> (string, 's) action"
  removeAccount :: "string \<Rightarrow> (unit, 's) action"


text \<open>The calls that a handler makes on the account manager, in order\<close>

datatype call =
    ListAccounts
  | ValidateAccount string "string option" "string option"
  | ValidateToken string "string list"
  | RefreshToken "string option"
  | SaveToken string token
  | GetTokenFromCode string
  | GenerateAuthUrl "string list"
  | RemoveAccount string

definition returnValue :: "'a \<Rightarrow> ('a, 's) action" where
  "returnValue v s = (Inr v, s)"

text \<open>\<^verbatim>\<open>const x = await m; ...\<close>: a rejection ends the handler body.\<close>

definition andThen :: "('a, 's) action \<Rightarrow> ('a \<Rightarrow> ('b, 's) action) \<Rightarrow> ('b, 's) action" where
  "andThen m f s = (case m s of (Inl e, s') \<Rightarrow> (Inl e, s') | (Inr v, s') \<Rightarrow> f v s')"

definition invoke :: "call \<Rightarrow> ('a, 's) action \<Rightarrow> ('a, call list \<times> 's) action" where
  "invoke c m ls = (case m (snd ls) of (r, s') \<Rightarrow> (r, (fst ls @ [c], s')))"

definition service :: "('a, 's) action \<Rightarrow> ('a, call list \<times> 's) action" where
  "service m ls = (case m (snd ls) of (r, s') \<Rightarrow> (r, (fst ls, s')))"

subsection \<open>Requests and responses\<close>

record tool_arguments =
  arg_email :: string
  arg_category :: "string option"
  arg_description :: "string option"
  arg_required_scopes :: "string list"
  arg_auth_code :: "string option"
  arg_eventId :: string
  arg_all :: string


text \<open>
  An object literal whose properties are strings or undefined, and what
  \<^verbatim>\<open>JSON.stringify\<close> keeps of it: a property that is undefined is left out.
\<close>

type_synonym js_object = "(string \<times> string option) list"

fun stringify :: "js_object \<Rightarrow> (string \<times> string) list" where
  "stringify [] = []"
| "stringify ((k, None) # ps) = stringify ps"
| "stringify ((k, Some v) # ps) = (k, v) # stringify ps"

datatype payload =
    Accounts "account_listing list"
  | Fields "(string \<times> string) list"
  | Passed string



subsection \<open>The handlers\<close>

definition authInstructions :: string where
  "authInstructions =
     join NL
       [''1. Click the authorization URL below to open Google sign-in'',
        ''2. Sign in with your Google account'',
        ''3. Allow the requested permissions'',
        ''4. Copy the authorization code shown'',
        ''5. Run this request again with the auth_code parameter set to the code you copied'']"

definition use_google_account ::
  "'s account_manager \<Rightarrow> tool_arguments \<Rightarrow> (payload, call list \<times> 's) action" where
  "use_google_account am args =
     andThen (invoke (ValidateAccount (arg_email args) (arg_category args) (arg_description args))
                (validateAccount am (arg_email args) (arg_category args) (arg_description args)))
       (\<lambda>registered.
     andThen (invoke (ValidateToken (arg_email args) (arg_required_scopes args))
                (validateToken am (arg_email args) (arg_required_scopes args)))
       (\<lambda>tokenStatus.
          if \<not> valid tokenStatus \<or> token tokenStatus = None then
            (if token tokenStatus \<noteq> None \<and> reason tokenStatus = Some ''Token expired'' then
               andThen (invoke (RefreshToken (refresh_token (the (token tokenStatus))))
                          (refreshToken am (refresh_token (the (token tokenStatus)))))
                 (\<lambda>newToken.
               andThen (invoke (SaveToken (arg_email args) newToken)
                          (saveToken am (arg_email args) newToken))
                 (\<lambda>saved.
                    returnValue
                      (Fields (stringify
                         [(''status'', Some ''refreshing''),
                          (''message'',
                           Some ''Token refreshed successfully, please retry the request'')]))))
             else if truthy (arg_auth_code args) then
               andThen (invoke (GetTokenFromCode (the (arg_auth_code args)))
                          (getTokenFromCode am (the (arg_auth_code args))))
                 (\<lambda>tokenData.
               andThen (invoke (SaveToken (arg_email args) tokenData)
                          (saveToken am (arg_email args) tokenData))
                 (\<lambda>saved.
                    returnValue
                      (Fields (stringify
                         [(''status'', Some ''success''),
                          (''message'',
                           Some ''Authentication successful! Token saved. Please retry your request.'')]))))
             else
               andThen (invoke (GenerateAuthUrl (arg_required_scopes args))
                          (generateAuthUrl am (arg_required_scopes args)))
                 (\<lambda>authUrl.
                    returnValue
                      (Fields (stringify
                         [(''status'', Some ''auth_required''),
                          (''auth_url'', Some authUrl),
                          (''message'', Some ''Please complete authentication:''),
                          (''instructions'', Some authInstructions)]))))
          else
            returnValue
              (Fields (stringify
                 [(''status'', Some ''success''),
                  (''message'', Some ''Account is already authenticated with required scopes'')]))))"

definition forget_google_account ::
  "'s account_manager \<Rightarrow> tool_arguments \<Rightarrow> (payload, call list \<times> 's) action" where
  "forget_google_account am args =
     andThen (invoke (RemoveAccount (arg_email args)) (removeAccount am (arg_email args)))
       (\<lambda>removed.
          returnValue
            (Fields (stringify
               [(''status'', Some ''success''),
                (''message'',
                 Some (''Successfully removed account '' @ arg_email args
                       @ '' and deleted associated tokens''))])))"




subsection \<open>Concurrent calls of use_google_account\<close>

text \<open>
  The handler is an \<^verbatim>\<open>async\<close> function: it runs up to an
  \<^verbatim>\<open>await\<close>, where the call on the account manager is made, and resumes with
  the result of that call. Between two such points other callers may run. A caller is
  the arguments of its request together with the point at which it waits: before the
  first call, after \<^verbatim>\<open>validateAccount\<close>, after \<^verbatim>\<open>validateToken\<close> with
  the status, after \<^verbatim>\<open>refreshToken\<close> or \<^verbatim>\<open>getTokenFromCode\<close> with the
  token, or finished with what the handler body returns or throws.
\<close>

datatype waiting =
    Start
  | Registered
  | Checked token_status
  | Refreshed token
  | Exchanged token
  | Finished "thrown + payload"

type_synonym caller = "tool_arguments \<times> waiting"

definition awaiting ::
  "call \<Rightarrow> ('a, 's) action \<Rightarrow> ('a \<Rightarrow> waiting) \<Rightarrow> call list \<times> 's \<Rightarrow> waiting \<times> (call list \<times> 's)" where
  "awaiting c m k ls =
     (case invoke c m ls of
        (Inl e, ls') \<Rightarrow> (Finished (Inl e), ls')
      | (Inr v, ls') \<Rightarrow> (k v, ls'))"

text \<open>The part of the handler body that one caller runs when it is resumed\<close>

fun segment ::
  "'s account_manager \<Rightarrow> tool_arguments \<Rightarrow> waiting \<Rightarrow> call list \<times> 's \<Rightarrow> waiting \<times> (call list \<times> 's)" where
  "segment am args Start ls =
     awaiting (ValidateAccount (arg_email args) (arg_category args) (arg_description args))
       (validateAccount am (arg_email args) (arg_category args) (arg_description args))
       (\<lambda>registered. Registered) ls"
| "segment am args Registered ls =
     awaiting (ValidateToken (arg_email args) (arg_required_scopes args))
       (validateToken am (arg_email args) (arg_required_scopes args))
       Checked ls"
| "segment am args (Checked tokenStatus) ls =
     (if \<not> valid tokenStatus \<or> token tokenStatus = None then
        (if token tokenStatus \<noteq> None \<and> reason tokenStatus = Some ''Token expired'' then
           awaiting (RefreshToken (refresh_token (the (token tokenStatus))))
             (refreshToken am (refresh_token (the (token tokenStatus))))
             Refreshed ls
         else if truthy (arg_auth_code args) then
           awaiting (GetTokenFromCode (the (arg_auth_code args)))
             (getTokenFromCode am (the (arg_auth_code args)))
             Exchanged ls
         else
           awaiting (GenerateAuthUrl (arg_required_scopes args))
             (generateAuthUrl am (arg_required_scopes args))
             (\<lambda>authUrl.
                Finished (Inr (Fields (stringify
                  [(''status'', Some ''auth_required''),
                   (''auth_url'', Some authUrl),
                   (''message'', Some ''Please complete authentication:''),
                   (''instructions'', Some authInstructions)]))))
             ls)
      else
        (Finished (Inr (Fields (stringify
           [(''status'', Some ''success''),
            (''message'', Some ''Account is already authenticated with required scopes'')]))),
         ls))"
| "segment am args (Refreshed newToken) ls =
     awaiting (SaveToken (arg_email args) newToken) (saveToken am (arg_email args) newToken)
       (\<lambda>saved.
          Finished (Inr (Fields (stringify
            [(''status'', Some ''refreshing''),
             (''message'', Some ''Token refreshed successfully, please retry the request'')]))))
       ls"
| "segment am args (Exchanged tokenData) ls =
     awaiting (SaveToken (arg_email args) tokenData) (saveToken am (arg_email args) tokenData)
       (\<lambda>saved.
          Finished (Inr (Fields (stringify
            [(''status'', Some ''success''),
             (''message'',
              Some ''Authentication successful! Token saved. Please retry your request.'')]))))
       ls"
| "segment am args (Finished r) ls = (Finished r, ls)"

text \<open>
  One turn of every caller, in the order of arrival: each runs its next segment on the
  state the one before it left.
\<close>

fun everyCaller ::
  "'s account_manager \<Rightarrow> caller list \<Rightarrow> call list \<times> 's \<Rightarrow> caller list \<times> (call list \<times> 's)" where
  "everyCaller am [] ls = ([], ls)"
| "everyCaller am ((args, w) # cs) ls =
     (case segment am args w ls of
        (w', ls') \<Rightarrow>
          (case everyCaller am cs ls' of
             (cs', ls'') \<Rightarrow> ((args, w') # cs', ls'')))"

text \<open>
  Callers that take turns: no path of the handler has more than four calls, so four turns
  of every caller finish them all.
\<close>

definition inTurns ::
  "'s account_manager \<Rightarrow> caller list \<Rightarrow> call list \<times> 's \<Rightarrow> caller list \<times> (call list \<times> 's)" where
  "inTurns am cs ls =
     (case everyCaller am cs ls of
        (cs1, ls1) \<Rightarrow>
          (case everyCaller am cs1 ls1 of
             (cs2, ls2) \<Rightarrow>
               (case everyCaller am cs2 ls2 of
                  (cs3, ls3) \<Rightarrow> everyCaller am cs3 ls3)))"

section \<open>The account module, from the specification\<close>

text \<open>
  Modelled from the spec: the state behind the account manager, whose module is missing
  from the sources: the registry (section 4.2), the token store (section 4.1), the pending
  authorizations (section 3), the clock, the authorization codes already consumed, and the
  requests sent so far to the authorization server.
\<close>

record pending_authorization =
  pa_scopes :: "string list"
  pa_issued :: nat

datatype net_call = RefreshCall string | ExchangeCall string

record manager_state =
  registry :: "account list"
  tokenStore :: "(string \<times> token) list"
  pending :: "(string \<times> pending_authorization) list"
  clock :: nat
  usedCodes :: "string list"
  network :: "net_call list"

text \<open>
  Modelled from the spec: the authorization server of section 6, an external collaborator:
  the consent endpoint and the redirect target, the refresh endpoint and the code-exchange
  endpoint. An exchange answers with the state value the code was issued under and the
  token response.
\<close>

record token_response =
  tr_access_token :: string
  tr_refresh_token :: "string option"
  tr_expires_in :: nat
  tr_scope :: "string list option"

datatype refresh_failure = Rejected | Transient

record auth_server =
  consent_endpoint :: string
  redirect_target :: string
  refresh_endpoint :: "string \<Rightarrow> refresh_failure + token_response"
  exchange_endpoint :: "string \<Rightarrow> (string \<times> token_response) option"

text \<open>
  Modelled from the spec: the scope reconciler of section 4.3, \<open>required \<subseteq> granted\<close>
  by exact string equality. The account module is missing from the sources.
\<close>

definition isSatisfied :: "string list \<Rightarrow> string list \<Rightarrow> bool" where
  "isSatisfied granted required = list_all (\<lambda>r. r \<in> set granted) required"

text \<open>
  Modelled from the spec: \<open>register\<close> of section 4.2, which the handler calls as
  \<^verbatim>\<open>validateAccount(email, category, description)\<close>; the account module is
  missing from the sources. It creates the account if absent and otherwise returns the
  existing record unchanged.
\<close>

definition spec_validateAccount ::
  "string \<Rightarrow> string option \<Rightarrow> string option \<Rightarrow> (account, manager_state) action" where
  "spec_validateAccount e c d s =
     (case find (\<lambda>a. acc_email a = e) (registry s) of
        Some a \<Rightarrow> (Inr a, s)
      | None \<Rightarrow>
          (let a = \<lparr>acc_email = e, acc_category = c, acc_description = d, acc_created = clock s\<rparr>
           in (Inr a, s\<lparr>registry := registry s @ [a]\<rparr>)))"

text \<open>
  Modelled from the spec: \<open>validate\<close> of section 4.6 as far as it reads the store,
  which the handler calls as \<^verbatim>\<open>validateToken(email, required_scopes)\<close>; the
  account module is missing from the sources. The credential is loaded; absent gives
  "no credential", insufficient scopes give "insufficient scope". For an expired access
  token with a refresh token the status follows the call in index.ts, which reads
  \<^verbatim>\<open>tokenStatus.token\<close> and the reason \<^verbatim>\<open>'Token expired'\<close> and
  performs the refresh itself. An access token is expired once the clock is past its
  expiry timestamp; without a refresh token it is reported as
  "token expired, reauthorization required".
\<close>

definition spec_validateToken :: "string \<Rightarrow> string list \<Rightarrow> (token_status, manager_state) action" where
  "spec_validateToken e required s =
     (case map_of (tokenStore s) e of
        None \<Rightarrow> (Inr \<lparr>valid = False, token = None, reason = Some ''no credential''\<rparr>, s)
      | Some t \<Rightarrow>
          if \<not> isSatisfied (granted_scopes t) required then
            (Inr \<lparr>valid = False, token = None, reason = Some ''insufficient scope''\<rparr>, s)
          else if expiry t < clock s then
            (if refresh_token t \<noteq> None
             then (Inr \<lparr>valid = False, token = Some t, reason = Some ''Token expired''\<rparr>, s)
             else (Inr \<lparr>valid = False, token = None,
                        reason = Some ''token expired, reauthorization required''\<rparr>, s))
          else (Inr \<lparr>valid = True, token = Some t, reason = None\<rparr>, s))"

text \<open>
  Modelled from the spec: \<open>refresh\<close> of section 4.5; the account module is missing
  from the sources. One request goes to the refresh endpoint. A rejection is the
  terminal \<open>RefreshRejected\<close> and destroys the credential (section 3), a transient
  failure is \<open>TransientRefreshError\<close>. On success the access token and the expiry are
  replaced; the refresh token is retained unless rotated, and the granted scopes are
  those of the response or else those of the credential that held the refresh token.
\<close>

definition spec_refreshToken :: "auth_server \<Rightarrow> string option \<Rightarrow> (token, manager_state) action" where
  "spec_refreshToken srv rt s =
     (case rt of
        None \<Rightarrow>
          (Inl (AccountError \<lparr>message = ''No refresh token'', code = ''RefreshRejected'',
                              resolution = Some ''Re-run with auth_code''\<rparr>), s)
      | Some r \<Rightarrow>
          (let s1 = s\<lparr>network := network s @ [RefreshCall r]\<rparr> in
           case refresh_endpoint srv r of
             Inl Rejected \<Rightarrow>
               (Inl (AccountError \<lparr>message = ''Refresh token rejected'', code = ''RefreshRejected'',
                                   resolution = Some ''Re-run with auth_code''\<rparr>),
                s1\<lparr>tokenStore := filter (\<lambda>(e, t). refresh_token t \<noteq> Some r) (tokenStore s1)\<rparr>)
           | Inl Transient \<Rightarrow>
               (Inl (AccountError \<lparr>message = ''Refresh failed'', code = ''TransientRefreshError'',
                                   resolution = Some ''Retry later''\<rparr>), s1)
           | Inr resp \<Rightarrow>
               (Inr \<lparr>access_token = tr_access_token resp,
                     refresh_token =
                       (case tr_refresh_token resp of None \<Rightarrow> Some r | Some r' \<Rightarrow> Some r'),
                     expiry = clock s + tr_expires_in resp,
                     granted_scopes =
                       (case tr_scope resp of
                          Some sc \<Rightarrow> sc
                        | None \<Rightarrow>
                            (case find (\<lambda>(e, t). refresh_token t = Some r) (tokenStore s) of
                               Some (e, t) \<Rightarrow> granted_scopes t
                             | None \<Rightarrow> []))\<rparr>,
                s1)))"

text \<open>
  Modelled from the spec: \<open>put\<close> of section 4.1, which the handler calls as
  \<^verbatim>\<open>saveToken(email, token)\<close>; the account module is missing from the sources.
  A later put fully replaces the record.
\<close>

definition spec_saveToken :: "string \<Rightarrow> token \<Rightarrow> (unit, manager_state) action" where
  "spec_saveToken e t s = (Inr (), s\<lparr>tokenStore := AList.update e t (tokenStore s)\<rparr>)"

text \<open>
  Modelled from the spec: \<open>exchangeCode\<close> of section 4.4; the account module is
  missing from the sources. A code that is invalid or already consumed fails with
  \<open>ExchangeError\<close>. On success the granted scopes are those of the response or else
  those of the pending authorization, which is consumed.
\<close>

definition spec_getTokenFromCode :: "auth_server \<Rightarrow> string \<Rightarrow> (token, manager_state) action" where
  "spec_getTokenFromCode srv c s =
     (let s1 = s\<lparr>network := network s @ [ExchangeCall c]\<rparr> in
      case (if c \<in> set (usedCodes s) then None else exchange_endpoint srv c) of
        None \<Rightarrow>
          (Inl (AccountError \<lparr>message = ''Authorization code rejected'', code = ''ExchangeError'',
                              resolution = Some ''Request a new authorization code''\<rparr>), s1)
      | Some (st, resp) \<Rightarrow>
          (Inr \<lparr>access_token = tr_access_token resp,
                refresh_token = tr_refresh_token resp,
                expiry = clock s + tr_expires_in resp,
                granted_scopes =
                  (case tr_scope resp of
                     Some sc \<Rightarrow> sc
                   | None \<Rightarrow>
                       (case map_of (pending s) st of
                          Some p \<Rightarrow> pa_scopes p
                        | None \<Rightarrow> []))\<rparr>,
           s1\<lparr>usedCodes := usedCodes s1 @ [c], pending := AList.delete st (pending s1)\<rparr>))"

text \<open>
  Modelled from the spec: \<open>generateConsentUrl\<close> of section 4.4; the account module
  is missing from the sources. The URL is built from the consent endpoint, the requested
  scopes, the redirect target and a fresh state value, under which the pending
  authorization is recorded.
\<close>

definition spec_generateAuthUrl :: "auth_server \<Rightarrow> string list \<Rightarrow> (string, manager_state) action" where
  "spec_generateAuthUrl srv scopes s =
     (let st = ''s'' @ decimal (length (pending s) + length (usedCodes s)) in
      (Inr (consent_endpoint srv @ ''?scope='' @ join '' '' scopes
            @ ''&redirect_uri='' @ redirect_target srv @ ''&state='' @ st),
       s\<lparr>pending := pending s @ [(st, \<lparr>pa_scopes = scopes, pa_issued = clock s\<rparr>)]\<rparr>))"

text \<open>
  Modelled from the spec: \<open>revoke\<close> of section 4.6, which the handler calls as
  \<^verbatim>\<open>removeAccount(email)\<close>; the account module is missing from the sources. It
  deletes the credential and the account record and is idempotent.
\<close>

definition spec_removeAccount :: "string \<Rightarrow> (unit, manager_state) action" where
  "spec_removeAccount e s =
     (Inr (), s\<lparr>registry := filter (\<lambda>a. acc_email a \<noteq> e) (registry s),
                tokenStore := AList.delete e (tokenStore s)\<rparr>)"

text \<open>
  Modelled from the spec: \<open>list\<close> of section 4.6; the account module is missing from
  the sources. The accounts come in insertion order, each with a summary of its
  credential that leaves the tokens out.
\<close>

definition spec_listAccounts :: "(account_listing list, manager_state) action" where
  "spec_listAccounts s =
     (Inr (map (\<lambda>a. \<lparr>la_account = a,
                      la_credential =
                        map_option (\<lambda>t. \<lparr>cs_expiry = expiry t, cs_scopes = granted_scopes t\<rparr>)
                          (map_of (tokenStore s) (acc_email a))\<rparr>)
               (registry s)), s)"

text \<open>
  Modelled from the spec: the account manager that \<^verbatim>\<open>getAccountManager()\<close>
  returns, assembled from the operations above; the account module is missing from the
  sources.
\<close>

definition spec_manager :: "auth_server \<Rightarrow> manager_state account_manager" where
  "spec_manager srv =
     \<lparr>listAccounts = spec_listAccounts,
      validateAccount = spec_validateAccount,
      validateToken = spec_validateToken,
      refreshToken = spec_refreshToken srv,
      saveToken = spec_saveToken,
      getTokenFromCode = spec_getTokenFromCode srv,
      generateAuthUrl = spec_generateAuthUrl srv,
      removeAccount = spec_removeAccount\<rparr>"

section \<open>Notions used in the properties\<close>

text \<open>The code of the \<^verbatim>\<open>GmailError\<close> that an operation throws, if it throws one\<close>

definition failureCode :: "'a outcome \<Rightarrow> string option" where
  "failureCode r = (case snd r of Inl (GmailError m) \<Rightarrow> Some (code m) | _ \<Rightarrow> None)"

text \<open>
  An attachment counts as processed when \<^verbatim>\<open>processAttachment\<close> returns a result
  with \<^verbatim>\<open>success\<close> and an \<^verbatim>\<open>attachment\<close>, and as downloaded when
  \<^verbatim>\<open>downloadFile\<close> returns a result with \<^verbatim>\<open>success\<close>.
\<close>

definition processedOk ::
  "draft_service \<Rightarrow> platform \<Rightarrow> string \<Rightarrow> draft_attachment \<Rightarrow> stored_attachment option" where
  "processedOk svc pf em a =
     (case processAttachment (attachmentService svc) em (toSource a) (outgoingFolder pf) of
        Inl e \<Rightarrow> None
      | Inr r \<Rightarrow> (if success r then attachment r else None))"

definition downloadedOk ::
  "draft_service \<Rightarrow> string \<Rightarrow> stored_attachment \<Rightarrow> (stored_attachment \<times> string) option" where
  "downloadedOk svc em a =
     (case downloadFile (driveService svc) em (att_id a) of
        Inl e \<Rightarrow> None
      | Inr f \<Rightarrow> (if dl_success f then Some (a, dl_data f) else None))"

text \<open>
  The attachments of a list that count as processed, and those of them that count as
  downloaded, with their bytes
\<close>

definition keptAttachments ::
  "draft_service \<Rightarrow> platform \<Rightarrow> string \<Rightarrow> draft_attachment list \<Rightarrow> stored_attachment list" where
  "keptAttachments svc pf em atts = List.map_filter (processedOk svc pf em) atts"

definition includedAttachments ::
  "draft_service \<Rightarrow> platform \<Rightarrow> string \<Rightarrow> draft_attachment list
     \<Rightarrow> (stored_attachment \<times> string) list" where
  "includedAttachments svc pf em atts =
     List.map_filter (downloadedOk svc em) (keptAttachments svc pf em atts)"

text \<open>The number of calls of \<^verbatim>\<open>refreshToken\<close> among the calls made\<close>

fun isRefresh :: "call \<Rightarrow> bool" where
  "isRefresh (RefreshToken r) = True"
| "isRefresh c = False"

definition refreshCalls :: "call list \<Rightarrow> nat" where
  "refreshCalls calls = length (filter isRefresh calls)"

text \<open>The message that holds the head parts and exactly the given attachments\<close>

definition messageWith :: "platform \<Rightarrow> draft_data \<Rightarrow> (stored_attachment \<times> string) list \<Rightarrow> string" where
  "messageWith pf d included =
     concat (headParts (boundaryOf pf) d
             @ concat (map (\<lambda>(a, bytes). attachmentPart pf (boundaryOf pf) a bytes) included)
             @ [''--'' @ boundaryOf pf @ ''--''])"

text \<open>The addresses that the account list shows, and the record the registry holds for an address\<close>

definition listedEmails :: "manager_state \<Rightarrow> string list" where
  "listedEmails s =
     (case fst (spec_listAccounts s) of
        Inl e \<Rightarrow> []
      | Inr listing \<Rightarrow> map (\<lambda>l. acc_email (la_account l)) listing)"

definition storedAccount :: "manager_state \<Rightarrow> string \<Rightarrow> account option" where
  "storedAccount s e = find (\<lambda>a. acc_email a = e) (registry s)"

section \<open>Concrete inputs\<close>

definition demo_platform :: platform where
  "demo_platform =
     \<lparr>dateNow = 7, isoNow = ''2024-01-01T00:00:00.000Z'', base64 = (\<lambda>bytes. bytes),
      outgoingFolder = ''outgoing''\<rparr>"

text \<open>
  An attachment service that reports failure on the drive file \<open>missing\<close>, throws on
  the drive file \<open>denied\<close> and stores every other attachment under its name, and a
  drive service that reports failure on \<open>b.txt\<close> and throws on \<open>d.txt\<close>.
\<close>

definition demo_process :: "string \<Rightarrow> attachment_source \<Rightarrow> string \<Rightarrow> thrown + process_result" where
  "demo_process em src folder =
     (if src_fileId src = Some ''denied''
      then Inl (PlainError ''Drive permission denied'')
      else if src_fileId src = Some ''missing''
      then Inr \<lparr>success = False, attachment = None\<rparr>
      else Inr \<lparr>success = True,
                attachment = Some \<lparr>att_id = meta_name (src_metadata src),
                                    att_name = meta_name (src_metadata src),
                                    att_mimeType = meta_mimeType (src_metadata src)\<rparr>\<rparr>)"

definition demo_download :: "string \<Rightarrow> string \<Rightarrow> thrown + download_result" where
  "demo_download em fid =
     (if fid = ''d.txt''
      then Inl (PlainError ''Download interrupted'')
      else Inr \<lparr>dl_success = (fid \<noteq> ''b.txt''), dl_data = ''DATA''\<rparr>)"

definition demo_client :: gmail_client where
  "demo_client =
     \<lparr>users_drafts_create = (\<lambda>raw th. Inr \<lparr>draft_id = Some ''d1'', draft_message = None\<rparr>),
      users_drafts_list = Inr \<lparr>drafts = Some [''d1''], nextPageToken = None, resultSizeEstimate = Some 1\<rparr>,
      users_drafts_get = (\<lambda>i. Inr \<lparr>draft_id = Some i, draft_message = None\<rparr>),
      users_drafts_update = (\<lambda>i raw. Inr \<lparr>draft_id = Some i, draft_message = None\<rparr>),
      users_drafts_delete = (\<lambda>i. Inr ()),
      users_drafts_send = (\<lambda>i. Inr \<lparr>msg_id = Some ''m1'', msg_threadId = None, msg_labelIds = None\<rparr>)\<rparr>"

definition demo_service :: draft_service where
  "demo_service =
     newDraftService \<lparr>processAttachment = demo_process\<rparr> \<lparr>downloadFile = demo_download\<rparr>"

definition demo_attachments :: "draft_attachment list" where
  "demo_attachments =
     [\<lparr>driveFileId = Some ''missing'', content = None, name = ''a.txt'',
        mimeType = ''text/plain'', size = None\<rparr>,
      \<lparr>driveFileId = None, content = Some ''x'', name = ''b.txt'',
        mimeType = ''text/plain'', size = Some 1\<rparr>,
      \<lparr>driveFileId = None, content = Some ''y'', name = ''c.txt'',
        mimeType = ''text/plain'', size = Some 1\<rparr>]"

text \<open>One attachment more: a drive file whose processing throws, or a file whose download throws\<close>

definition denied_attachment :: draft_attachment where
  "denied_attachment =
     \<lparr>driveFileId = Some ''denied'', content = None, name = ''e.txt'',
      mimeType = ''text/plain'', size = None\<rparr>"

definition interrupted_attachment :: draft_attachment where
  "interrupted_attachment =
     \<lparr>driveFileId = None, content = Some ''z'', name = ''d.txt'',
      mimeType = ''text/plain'', size = Some 1\<rparr>"

definition demo_data :: draft_data where
  "demo_data =
     \<lparr>to = [''b@x.com''], subject = ''Hi'', body = ''Hello'', cc = None, bcc = None,
      threadId = None, attachments = Some demo_attachments\<rparr>"

text \<open>
  An authorization server that renews the refresh token \<open>r1\<close> for an hour, and a
  state of the account module with one account whose credential was granted \<open>read\<close>
  and expires at 99, read at a chosen time.
\<close>

definition demo_server :: auth_server where
  "demo_server =
     \<lparr>consent_endpoint = ''https://auth.example/consent'',
      redirect_target = ''urn:redirect'',
      refresh_endpoint =
        (\<lambda>r. if r = ''r1''
             then Inr \<lparr>tr_access_token = ''a2'', tr_refresh_token = None, tr_expires_in = 3600,
                       tr_scope = None\<rparr>
             else Inl Rejected),
      exchange_endpoint =
        (\<lambda>c. if c = ''code1''
             then Some (''s0'', \<lparr>tr_access_token = ''a1'', tr_refresh_token = Some ''r1'',
                                 tr_expires_in = 3600, tr_scope = None\<rparr>)
             else None)\<rparr>"

definition demo_token :: token where
  "demo_token = \<lparr>access_token = ''a1'', refresh_token = Some ''r1'', expiry = 99, granted_scopes = [''read'']\<rparr>"

definition demo_state :: "nat \<Rightarrow> manager_state" where
  "demo_state now =
     \<lparr>registry = [\<lparr>acc_email = ''a@x.com'', acc_category = Some ''work'', acc_description = None, acc_created = 0\<rparr>],
      tokenStore = [(''a@x.com'', demo_token)],
      pending = [], clock = now, usedCodes = [], network = []\<rparr>"

definition demo_args :: "string list \<Rightarrow> tool_arguments" where
  "demo_args scopes =
     \<lparr>arg_email = ''a@x.com'', arg_category = Some ''home'', arg_description = Some ''second'',
      arg_required_scopes = scopes, arg_auth_code = None, arg_eventId = [], arg_all = []\<rparr>"



section \<open>Properties of the draft service\<close>

text \<open>
  C8, as the code has it. Every operation of the draft service obtains the client inside
  its own \<^verbatim>\<open>try\<close> block, so the \<open>CLIENT_ERROR\<close> thrown by
  \<^verbatim>\<open>ensureClient\<close> is caught and thrown again under the operation's own code.
  With the Gmail client unset, each of createDraft, listDrafts, getDraft, updateDraft,
  deleteDraft and sendDraft fails with a GmailError whose code is CREATE_ERROR,
  LIST_ERROR, GET_ERROR, UPDATE_ERROR, DELETE_ERROR and SEND_ERROR respectively and whose
  resolution is the message "Gmail client not initialized"; no request is sent to the
  Gmail API.
\<close>

theorem unset_client_fails_under_operation_code:
  assumes "gmailClient svc = None"
  shows "createDraft svc pf em d =
           ([], Inl (newGmailError3 ''Failed to create draft'' ''CREATE_ERROR''
                       ''Gmail client not initialized'')) \<and>
         listDrafts svc pf em =
           ([], Inl (newGmailError3 ''Failed to list drafts'' ''LIST_ERROR''
                       ''Gmail client not initialized'')) \<and>
         getDraft svc pf em did =
           ([], Inl (newGmailError3 ''Failed to get draft'' ''GET_ERROR''
                       ''Gmail client not initialized'')) \<and>
         updateDraft svc pf em did d =
           ([], Inl (newGmailError3 ''Failed to update draft'' ''UPDATE_ERROR''
                       ''Gmail client not initialized'')) \<and>
         deleteDraft svc pf em did =
           ([], Inl (newGmailError3 ''Failed to delete draft'' ''DELETE_ERROR''
                       ''Gmail client not initialized'')) \<and>
         sendDraft svc pf em did =
           ([], Inl (newGmailError3 ''Failed to send draft'' ''SEND_ERROR''
                       ''Gmail client not initialized''))"
  using assms
  by (simp add: createDraft_def listDrafts_def getDraft_def updateDraft_def deleteDraft_def
        sendDraft_def ensureClient_def rethrow_def newGmailError3_def)

theorem unset_client_witness:
  "gmailClient demo_service = None \<and>
   failureCode (createDraft demo_service demo_platform ''a@x.com'' demo_data) = Some ''CREATE_ERROR'' \<and>
   fst (createDraft demo_service demo_platform ''a@x.com'' demo_data) = [] \<and>
   failureCode (sendDraft demo_service demo_platform ''a@x.com'' ''d1'') = Some ''SEND_ERROR'' \<and>
   fst (sendDraft demo_service demo_platform ''a@x.com'' ''d1'') = []"
proof -
  have unset: "gmailClient demo_service = None"
    by (simp add: demo_service_def newDraftService_def)
  show ?thesis
    using unset
      unset_client_fails_under_operation_code
        [OF unset, of demo_platform "''a@x.com''" demo_data "''d1''"]
    by (simp add: failureCode_def newGmailError3_def)
qed

text \<open>
  C8 as stated fails: on a service whose client was never set, getDraft throws a
  GmailError of code GET_ERROR, not CLIENT_ERROR.
\<close>

theorem unset_client_code_counterexample:
  "failureCode (getDraft demo_service demo_platform ''a@x.com'' ''d1'') = Some ''GET_ERROR'' \<and>
   failureCode (getDraft demo_service demo_platform ''a@x.com'' ''d1'') \<noteq> Some ''CLIENT_ERROR''"
  by (simp add: failureCode_def getDraft_def ensureClient_def demo_service_def newDraftService_def
        rethrow_def newGmailError3_def)

lemma processAttachments_kept:
  "\<forall>a \<in> set as. \<not> isl (processAttachment (attachmentService svc) em (toSource a) (outgoingFolder pf))
   \<Longrightarrow> processAttachments svc pf em as acc = Inr (acc @ List.map_filter (processedOk svc pf em) as)"
proof (induction as arbitrary: acc)
  case Nil
  show ?case by simp
next
  case (Cons a as)
  from Cons.prems obtain r where
    r: "processAttachment (attachmentService svc) em (toSource a) (outgoingFolder pf) = Inr r"
    by (cases "processAttachment (attachmentService svc) em (toSource a) (outgoingFolder pf)") auto
  from Cons.prems have rest:
    "\<forall>a \<in> set as. \<not> isl (processAttachment (attachmentService svc) em (toSource a) (outgoingFolder pf))"
    by simp
  show ?case
    using r Cons.IH [OF rest]
    by (cases "attachment r") (simp_all add: processedOk_def)
qed

lemma addAttachments_included:
  "\<forall>a \<in> set as. \<not> isl (downloadFile (driveService svc) em (att_id a))
   \<Longrightarrow> addAttachments svc pf em b as parts =
         Inr (parts @ concat (map (\<lambda>(a, bytes). attachmentPart pf b a bytes)
                                  (List.map_filter (downloadedOk svc em) as)))"
proof (induction as arbitrary: parts)
  case Nil
  show ?case by simp
next
  case (Cons a as)
  from Cons.prems obtain f where
    f: "downloadFile (driveService svc) em (att_id a) = Inr f"
    by (cases "downloadFile (driveService svc) em (att_id a)") auto
  from Cons.prems have rest: "\<forall>a \<in> set as. \<not> isl (downloadFile (driveService svc) em (att_id a))"
    by simp
  show ?case
    using f Cons.IH [OF rest]
    by (simp add: downloadedOk_def)
qed

lemma processAttachments_thrown:
  assumes "\<forall>x \<in> set pre. \<not> isl (processAttachment (attachmentService svc) em (toSource x) (outgoingFolder pf))"
    and "processAttachment (attachmentService svc) em (toSource a) (outgoingFolder pf) = Inl e"
  shows "processAttachments svc pf em (pre @ a # post) acc = Inl e"
  using assms
proof (induction pre arbitrary: acc)
  case Nil
  then show ?case by simp
next
  case (Cons x pre)
  from Cons.prems(1) obtain r where
    r: "processAttachment (attachmentService svc) em (toSource x) (outgoingFolder pf) = Inr r"
    by (cases "processAttachment (attachmentService svc) em (toSource x) (outgoingFolder pf)") auto
  from Cons.prems(1) have rest:
    "\<forall>x \<in> set pre. \<not> isl (processAttachment (attachmentService svc) em (toSource x) (outgoingFolder pf))"
    by simp
  show ?case using r Cons.IH [OF rest Cons.prems(2)] by simp
qed

lemma addAttachments_thrown:
  assumes "\<forall>x \<in> set pre. \<not> isl (downloadFile (driveService svc) em (att_id x))"
    and "downloadFile (driveService svc) em (att_id a) = Inl e"
  shows "addAttachments svc pf em b (pre @ a # post) parts = Inl e"
  using assms
proof (induction pre arbitrary: parts)
  case Nil
  then show ?case by simp
next
  case (Cons x pre)
  from Cons.prems(1) obtain f where
    f: "downloadFile (driveService svc) em (att_id x) = Inr f"
    by (cases "downloadFile (driveService svc) em (att_id x)") auto
  from Cons.prems(1) have rest:
    "\<forall>x \<in> set pre. \<not> isl (downloadFile (driveService svc) em (att_id x))"
    by simp
  show ?case using f Cons.IH [OF rest Cons.prems(2)] by simp
qed

lemma buildMessage_ok:
  assumes "attachments d = Some atts"
    and "\<forall>a \<in> set atts.
           \<not> isl (processAttachment (attachmentService svc) em (toSource a) (outgoingFolder pf))"
    and "\<forall>a \<in> set (keptAttachments svc pf em atts).
           \<not> isl (downloadFile (driveService svc) em (att_id a))"
  shows "buildMessage svc pf em d =
           Inr (keptAttachments svc pf em atts,
                messageWith pf d (includedAttachments svc pf em atts))"
  unfolding buildMessage_def
  using assms(3)
  by (simp add: assms(1) processAttachments_kept [OF assms(2)] addAttachments_included
        messageWith_def Let_def keptAttachments_def includedAttachments_def)

lemma buildMessage_processing_thrown:
  assumes "attachments d = Some (pre @ a # post)"
    and "\<forall>x \<in> set pre. \<not> isl (processAttachment (attachmentService svc) em (toSource x) (outgoingFolder pf))"
    and "processAttachment (attachmentService svc) em (toSource a) (outgoingFolder pf) = Inl e"
  shows "buildMessage svc pf em d = Inl e"
  unfolding buildMessage_def
  by (simp add: assms(1) processAttachments_thrown [OF assms(2) assms(3)])

lemma buildMessage_download_thrown:
  assumes "attachments d = Some atts"
    and "\<forall>a \<in> set atts.
           \<not> isl (processAttachment (attachmentService svc) em (toSource a) (outgoingFolder pf))"
    and "keptAttachments svc pf em atts = pre @ a # post"
    and "\<forall>x \<in> set pre. \<not> isl (downloadFile (driveService svc) em (att_id x))"
    and "downloadFile (driveService svc) em (att_id a) = Inl e"
  shows "buildMessage svc pf em d = Inl e"
  unfolding buildMessage_def
  using assms(3)
  by (simp add: assms(1) processAttachments_kept [OF assms(2)] keptAttachments_def Let_def
        addAttachments_thrown [OF assms(4) assms(5)])

text \<open>
  C9, as the code has it. In createDraft and in updateDraft, with the client set and an
  attachments list: both loops run inside the \<^verbatim>\<open>try\<close> block. When every call
  of \<^verbatim>\<open>processAttachment\<close> and \<^verbatim>\<open>downloadFile\<close> returns, an attachment
  whose processing result lacks \<^verbatim>\<open>success\<close> or the attachment, or whose download
  result lacks \<^verbatim>\<open>success\<close>, is left out of the message without any error: the
  request is sent with a part for exactly the attachments that were processed and
  downloaded, and when it succeeds the result's attachments are exactly the processed
  ones, in order. When a call of \<^verbatim>\<open>processAttachment\<close> or of
  \<^verbatim>\<open>downloadFile\<close> throws, the operation fails with a GmailError of code
  CREATE_ERROR or UPDATE_ERROR that carries the message of what was thrown, and no
  request is sent.
\<close>

theorem attachments_left_out_or_operation_fails:
  assumes client: "gmailClient svc = Some client"
    and atts: "attachments d = Some atts"
  shows
    "((\<forall>a \<in> set atts.
         \<not> isl (processAttachment (attachmentService svc) em (toSource a) (outgoingFolder pf))) \<and>
      (\<forall>a \<in> set (keptAttachments svc pf em atts).
         \<not> isl (downloadFile (driveService svc) em (att_id a))) \<longrightarrow>
        createDraft svc pf em d =
          ([DraftsCreate (base64 pf (messageWith pf d (includedAttachments svc pf em atts))) (threadId d)],
           (case users_drafts_create client
                   (base64 pf (messageWith pf d (includedAttachments svc pf em atts))) (threadId d) of
              Inl e \<Rightarrow> Inl (rethrow ''Failed to create draft'' ''CREATE_ERROR'' e)
            | Inr created \<Rightarrow> Inr (written pf created (keptAttachments svc pf em atts)))) \<and>
        updateDraft svc pf em did d =
          ([DraftsUpdate did (base64 pf (messageWith pf d (includedAttachments svc pf em atts)))],
           (case users_drafts_update client did
                   (base64 pf (messageWith pf d (includedAttachments svc pf em atts))) of
              Inl e \<Rightarrow> Inl (rethrow ''Failed to update draft'' ''UPDATE_ERROR'' e)
            | Inr updated \<Rightarrow> Inr (written pf updated (keptAttachments svc pf em atts)))) \<and>
        wr_attachments (written pf draft (keptAttachments svc pf em atts)) =
          keptAttachments svc pf em atts) \<and>
     (atts = pre @ a # post \<and>
      (\<forall>x \<in> set pre.
         \<not> isl (processAttachment (attachmentService svc) em (toSource x) (outgoingFolder pf))) \<and>
      processAttachment (attachmentService svc) em (toSource a) (outgoingFolder pf) = Inl e \<longrightarrow>
        createDraft svc pf em d = ([], Inl (rethrow ''Failed to create draft'' ''CREATE_ERROR'' e)) \<and>
        updateDraft svc pf em did d = ([], Inl (rethrow ''Failed to update draft'' ''UPDATE_ERROR'' e))) \<and>
     ((\<forall>a \<in> set atts.
         \<not> isl (processAttachment (attachmentService svc) em (toSource a) (outgoingFolder pf))) \<and>
      keptAttachments svc pf em atts = pre' @ k # post' \<and>
      (\<forall>x \<in> set pre'. \<not> isl (downloadFile (driveService svc) em (att_id x))) \<and>
      downloadFile (driveService svc) em (att_id k) = Inl e' \<longrightarrow>
        createDraft svc pf em d = ([], Inl (rethrow ''Failed to create draft'' ''CREATE_ERROR'' e')) \<and>
        updateDraft svc pf em did d = ([], Inl (rethrow ''Failed to update draft'' ''UPDATE_ERROR'' e')))"
proof (intro conjI impI)
  assume ok: "(\<forall>a \<in> set atts.
         \<not> isl (processAttachment (attachmentService svc) em (toSource a) (outgoingFolder pf))) \<and>
      (\<forall>a \<in> set (keptAttachments svc pf em atts).
         \<not> isl (downloadFile (driveService svc) em (att_id a)))"
  have built: "buildMessage svc pf em d =
      Inr (keptAttachments svc pf em atts, messageWith pf d (includedAttachments svc pf em atts))"
    using ok by (intro buildMessage_ok [OF atts]) simp_all
  show "createDraft svc pf em d =
          ([DraftsCreate (base64 pf (messageWith pf d (includedAttachments svc pf em atts))) (threadId d)],
           (case users_drafts_create client
                   (base64 pf (messageWith pf d (includedAttachments svc pf em atts))) (threadId d) of
              Inl e \<Rightarrow> Inl (rethrow ''Failed to create draft'' ''CREATE_ERROR'' e)
            | Inr created \<Rightarrow> Inr (written pf created (keptAttachments svc pf em atts))))"
    by (simp add: createDraft_def ensureClient_def client built Let_def split: sum.splits)
  show "updateDraft svc pf em did d =
          ([DraftsUpdate did (base64 pf (messageWith pf d (includedAttachments svc pf em atts)))],
           (case users_drafts_update client did
                   (base64 pf (messageWith pf d (includedAttachments svc pf em atts))) of
              Inl e \<Rightarrow> Inl (rethrow ''Failed to update draft'' ''UPDATE_ERROR'' e)
            | Inr updated \<Rightarrow> Inr (written pf updated (keptAttachments svc pf em atts))))"
    by (simp add: updateDraft_def ensureClient_def client built Let_def split: sum.splits)
  show "wr_attachments (written pf draft (keptAttachments svc pf em atts)) =
          keptAttachments svc pf em atts"
    by (simp add: written_def)
next
  assume thrown: "atts = pre @ a # post \<and>
      (\<forall>x \<in> set pre.
         \<not> isl (processAttachment (attachmentService svc) em (toSource x) (outgoingFolder pf))) \<and>
      processAttachment (attachmentService svc) em (toSource a) (outgoingFolder pf) = Inl e"
  have built: "buildMessage svc pf em d = Inl e"
    using thrown atts by (intro buildMessage_processing_thrown [of d pre a post]) simp_all
  show "createDraft svc pf em d = ([], Inl (rethrow ''Failed to create draft'' ''CREATE_ERROR'' e))"
    by (simp add: createDraft_def ensureClient_def client built)
  show "updateDraft svc pf em did d = ([], Inl (rethrow ''Failed to update draft'' ''UPDATE_ERROR'' e))"
    by (simp add: updateDraft_def ensureClient_def client built)
next
  assume thrown: "(\<forall>a \<in> set atts.
         \<not> isl (processAttachment (attachmentService svc) em (toSource a) (outgoingFolder pf))) \<and>
      keptAttachments svc pf em atts = pre' @ k # post' \<and>
      (\<forall>x \<in> set pre'. \<not> isl (downloadFile (driveService svc) em (att_id x))) \<and>
      downloadFile (driveService svc) em (att_id k) = Inl e'"
  have built: "buildMessage svc pf em d = Inl e'"
    using thrown by (intro buildMessage_download_thrown [OF atts, of svc em pf pre' k post']) simp_all
  show "createDraft svc pf em d = ([], Inl (rethrow ''Failed to create draft'' ''CREATE_ERROR'' e'))"
    by (simp add: createDraft_def ensureClient_def client built)
  show "updateDraft svc pf em did d = ([], Inl (rethrow ''Failed to update draft'' ''UPDATE_ERROR'' e'))"
    by (simp add: updateDraft_def ensureClient_def client built)
qed


lemmas demo_draft_defs = updateClient_def demo_service_def newDraftService_def demo_process_def
  demo_download_def demo_attachments_def denied_attachment_def interrupted_attachment_def
  toSource_def demo_platform_def demo_data_def demo_client_def

lemma demo_kept:
  "keptAttachments (updateClient demo_service demo_client) demo_platform ''a@x.com'' demo_attachments
   = [\<lparr>att_id = ''b.txt'', att_name = ''b.txt'', att_mimeType = ''text/plain''\<rparr>,
      \<lparr>att_id = ''c.txt'', att_name = ''c.txt'', att_mimeType = ''text/plain''\<rparr>]"
  by (simp add: keptAttachments_def processedOk_def demo_draft_defs)

lemma demo_included:
  "includedAttachments (updateClient demo_service demo_client) demo_platform ''a@x.com'' demo_attachments
   = [(\<lparr>att_id = ''c.txt'', att_name = ''c.txt'', att_mimeType = ''text/plain''\<rparr>, ''DATA'')]"
  by (simp add: includedAttachments_def demo_kept) (simp add: downloadedOk_def demo_draft_defs)

lemma demo_kept_interrupted:
  "keptAttachments (updateClient demo_service demo_client) demo_platform ''a@x.com''
     (demo_attachments @ [interrupted_attachment])
   = [\<lparr>att_id = ''b.txt'', att_name = ''b.txt'', att_mimeType = ''text/plain''\<rparr>,
      \<lparr>att_id = ''c.txt'', att_name = ''c.txt'', att_mimeType = ''text/plain''\<rparr>]
     @ \<lparr>att_id = ''d.txt'', att_name = ''d.txt'', att_mimeType = ''text/plain''\<rparr> # []"
  by (simp add: keptAttachments_def processedOk_def demo_draft_defs)

theorem attachments_witness:
  "createDraft (updateClient demo_service demo_client) demo_platform ''a@x.com'' demo_data =
     ([DraftsCreate
         (messageWith demo_platform demo_data
            [(\<lparr>att_id = ''c.txt'', att_name = ''c.txt'', att_mimeType = ''text/plain''\<rparr>, ''DATA'')])
         None],
      Inr \<lparr>wr_id = Some ''d1'',
            wr_message = \<lparr>sum_id = None, sum_threadId = None, sum_labelIds = []\<rparr>,
            wr_updated = ''2024-01-01T00:00:00.000Z'',
            wr_attachments =
              [\<lparr>att_id = ''b.txt'', att_name = ''b.txt'', att_mimeType = ''text/plain''\<rparr>,
               \<lparr>att_id = ''c.txt'', att_name = ''c.txt'', att_mimeType = ''text/plain''\<rparr>]\<rparr>) \<and>
   updateDraft (updateClient demo_service demo_client) demo_platform ''a@x.com'' ''d1''
       (demo_data\<lparr>attachments := Some (demo_attachments @ [denied_attachment])\<rparr>) =
     ([], Inl (newGmailError3 ''Failed to update draft'' ''UPDATE_ERROR'' ''Drive permission denied'')) \<and>
   createDraft (updateClient demo_service demo_client) demo_platform ''a@x.com''
       (demo_data\<lparr>attachments := Some (demo_attachments @ [interrupted_attachment])\<rparr>) =
     ([], Inl (newGmailError3 ''Failed to create draft'' ''CREATE_ERROR'' ''Download interrupted''))"
proof -
  let ?svc = "updateClient demo_service demo_client"
  let ?b = "\<lparr>att_id = ''b.txt'', att_name = ''b.txt'', att_mimeType = ''text/plain''\<rparr>"
  let ?c = "\<lparr>att_id = ''c.txt'', att_name = ''c.txt'', att_mimeType = ''text/plain''\<rparr>"
  let ?d = "\<lparr>att_id = ''d.txt'', att_name = ''d.txt'', att_mimeType = ''text/plain''\<rparr>"
  have client: "gmailClient ?svc = Some demo_client" by (simp add: updateClient_def)
  have returns: "\<forall>a \<in> set demo_attachments.
      \<not> isl (processAttachment (attachmentService ?svc) ''a@x.com'' (toSource a) (outgoingFolder demo_platform))"
    by (simp add: demo_draft_defs)
  have returns': "\<forall>a \<in> set (demo_attachments @ [interrupted_attachment]).
      \<not> isl (processAttachment (attachmentService ?svc) ''a@x.com'' (toSource a) (outgoingFolder demo_platform))"
    by (simp add: demo_draft_defs)
  have downloads: "\<forall>a \<in> set [?b, ?c]. \<not> isl (downloadFile (driveService ?svc) ''a@x.com'' (att_id a))"
    by (simp add: demo_draft_defs)
  have denied: "processAttachment (attachmentService ?svc) ''a@x.com'' (toSource denied_attachment)
                  (outgoingFolder demo_platform) = Inl (PlainError ''Drive permission denied'')"
    by (simp add: demo_draft_defs)
  have interrupted: "downloadFile (driveService ?svc) ''a@x.com'' (att_id ?d)
                       = Inl (PlainError ''Download interrupted'')"
    by (simp add: demo_draft_defs)
  have first:
    "createDraft ?svc demo_platform ''a@x.com'' demo_data =
       ([DraftsCreate (base64 demo_platform (messageWith demo_platform demo_data [(?c, ''DATA'')]))
           (threadId demo_data)],
        (case users_drafts_create demo_client
                (base64 demo_platform (messageWith demo_platform demo_data [(?c, ''DATA'')]))
                (threadId demo_data) of
           Inl e \<Rightarrow> Inl (rethrow ''Failed to create draft'' ''CREATE_ERROR'' e)
         | Inr created \<Rightarrow> Inr (written demo_platform created [?b, ?c])))"
    using attachments_left_out_or_operation_fails
            [of ?svc demo_client demo_data demo_attachments "''a@x.com''" demo_platform,
             OF client, unfolded demo_kept demo_included]
          returns downloads
    by (simp add: demo_data_def)
  have second:
    "updateDraft ?svc demo_platform ''a@x.com'' ''d1''
       (demo_data\<lparr>attachments := Some (demo_attachments @ [denied_attachment])\<rparr>) =
     ([], Inl (rethrow ''Failed to update draft'' ''UPDATE_ERROR'' (PlainError ''Drive permission denied'')))"
    using attachments_left_out_or_operation_fails
            [of ?svc demo_client "demo_data\<lparr>attachments := Some (demo_attachments @ [denied_attachment])\<rparr>"
                "demo_attachments @ [denied_attachment]" "''a@x.com''" demo_platform
                "''d1''" _ demo_attachments denied_attachment "[]" "PlainError ''Drive permission denied''",
             OF client]
          returns denied
    by simp
  have third:
    "createDraft ?svc demo_platform ''a@x.com''
       (demo_data\<lparr>attachments := Some (demo_attachments @ [interrupted_attachment])\<rparr>) =
     ([], Inl (rethrow ''Failed to create draft'' ''CREATE_ERROR'' (PlainError ''Download interrupted'')))"
    using attachments_left_out_or_operation_fails
            [of ?svc demo_client "demo_data\<lparr>attachments := Some (demo_attachments @ [interrupted_attachment])\<rparr>"
                "demo_attachments @ [interrupted_attachment]" "''a@x.com''" demo_platform
                _ _ _ _ _ _ "[?b, ?c]" ?d "[]" "PlainError ''Download interrupted''",
             OF client]
          returns' downloads interrupted demo_kept_interrupted
    by simp
  show ?thesis
    using first second third
    by (simp add: rethrow_def written_def summarize_def demo_client_def demo_platform_def demo_data_def)
qed

text \<open>
  C9 as stated fails where the failure is thrown: with one attachment whose processing
  throws, createDraft fails with CREATE_ERROR, and with one attachment whose download
  throws, updateDraft fails with UPDATE_ERROR; neither succeeds with the attachment left
  out.
\<close>

theorem thrown_attachment_counterexample:
  "createDraft (updateClient demo_service demo_client) demo_platform ''a@x.com''
       (demo_data\<lparr>attachments := Some [denied_attachment]\<rparr>) =
     ([], Inl (GmailError \<lparr>message = ''Failed to create draft'', code = ''CREATE_ERROR'',
                           resolution = Some ''Drive permission denied''\<rparr>)) \<and>
   updateDraft (updateClient demo_service demo_client) demo_platform ''a@x.com'' ''d1''
       (demo_data\<lparr>attachments := Some [interrupted_attachment]\<rparr>) =
     ([], Inl (GmailError \<lparr>message = ''Failed to update draft'', code = ''UPDATE_ERROR'',
                           resolution = Some ''Download interrupted''\<rparr>))"
  by (simp add: createDraft_def updateDraft_def ensureClient_def buildMessage_def rethrow_def
        newGmailError3_def demo_draft_defs Let_def)

text \<open>
  C10, as the code has it. The dispatcher tests the draft identifier for truthiness, so an
  empty string counts as a missing identifier. For the action read, a missing or empty
  identifier gives the full list of drafts and a non-empty one gives that single draft;
  for the actions update, delete and send, a missing or empty identifier fails with a
  GmailError of code INVALID_PARAMS before any request is sent.
\<close>

theorem manageDraft_by_draft_id:
  "(action p = ''read'' \<and> \<not> truthy (draftId p) \<longrightarrow>
      manageDraft svc pf p = returning Listing (listDrafts svc pf (email p))) \<and>
   (action p = ''read'' \<and> truthy (draftId p) \<longrightarrow>
      manageDraft svc pf p = returning Summary (getDraft svc pf (email p) (the (draftId p)))) \<and>
   (action p \<in> {''update'', ''delete'', ''send''} \<and> \<not> truthy (draftId p) \<longrightarrow>
      fst (manageDraft svc pf p) = [] \<and> failureCode (manageDraft svc pf p) = Some ''INVALID_PARAMS'')"
  by (auto simp add: manageDraft_def failureCode_def newGmailError2_def)

theorem manageDraft_by_draft_id_witness:
  "manageDraft (updateClient demo_service demo_client) demo_platform
     \<lparr>email = ''a@x.com'', action = ''read'', draftId = None, data = None\<rparr>
     = returning Listing (listDrafts (updateClient demo_service demo_client) demo_platform ''a@x.com'') \<and>
   manageDraft (updateClient demo_service demo_client) demo_platform
     \<lparr>email = ''a@x.com'', action = ''read'', draftId = Some ''d1'', data = None\<rparr>
     = returning Summary (getDraft (updateClient demo_service demo_client) demo_platform ''a@x.com'' ''d1'') \<and>
   failureCode (manageDraft (updateClient demo_service demo_client) demo_platform
     \<lparr>email = ''a@x.com'', action = ''send'', draftId = None, data = None\<rparr>) = Some ''INVALID_PARAMS''"
  using
    manageDraft_by_draft_id [of "\<lparr>email = ''a@x.com'', action = ''read'', draftId = None, data = None\<rparr>"
      "updateClient demo_service demo_client" demo_platform]
    manageDraft_by_draft_id [of "\<lparr>email = ''a@x.com'', action = ''read'', draftId = Some ''d1'', data = None\<rparr>"
      "updateClient demo_service demo_client" demo_platform]
    manageDraft_by_draft_id [of "\<lparr>email = ''a@x.com'', action = ''send'', draftId = None, data = None\<rparr>"
      "updateClient demo_service demo_client" demo_platform]
  by simp

text \<open>
  C10 as stated fails where the identifier supplied is the empty string: the action read
  then returns the list of drafts, which is not what getDraft returns for that identifier.
\<close>

theorem read_with_empty_draft_id_counterexample:
  "manageDraft (updateClient demo_service demo_client) demo_platform
     \<lparr>email = ''a@x.com'', action = ''read'', draftId = Some [], data = None\<rparr>
     = returning Listing (listDrafts (updateClient demo_service demo_client) demo_platform ''a@x.com'') \<and>
   manageDraft (updateClient demo_service demo_client) demo_platform
     \<lparr>email = ''a@x.com'', action = ''read'', draftId = Some [], data = None\<rparr>
     \<noteq> returning Summary (getDraft (updateClient demo_service demo_client) demo_platform ''a@x.com'' [])"
  by (simp add: manageDraft_def returning_def listDrafts_def getDraft_def ensureClient_def
        updateClient_def demo_client_def)

section \<open>Properties of the tool server\<close>

lemmas run_defs = use_google_account_def andThen_def invoke_def returnValue_def
lemmas spec_defs = spec_manager_def spec_validateAccount_def spec_validateToken_def
  spec_refreshToken_def spec_saveToken_def spec_generateAuthUrl_def spec_getTokenFromCode_def
  spec_removeAccount_def spec_listAccounts_def isSatisfied_def

lemmas demo_defs = demo_server_def demo_token_def demo_state_def demo_args_def

text \<open>
  C1, as the code has it. When \<^verbatim>\<open>validateToken\<close> reports the stored token as not valid
  with the reason "Token expired", the handler of use_google_account calls
  \<^verbatim>\<open>refreshToken\<close> with the token's refresh token, persists the token it gets back
  with \<^verbatim>\<open>saveToken\<close>, and answers with the status "refreshing" and the message
  "Token refreshed successfully, please retry the request". The answer carries neither a
  valid flag nor the credential: the caller has to send the request again.
\<close>

theorem expired_token_is_refreshed_and_retry_requested:
  assumes registered:
      "validateAccount am (arg_email args) (arg_category args) (arg_description args) s = (Inr acct, s1)"
    and status:
      "validateToken am (arg_email args) (arg_required_scopes args) s1 =
         (Inr \<lparr>valid = False, token = Some t, reason = Some ''Token expired''\<rparr>, s2)"
    and refreshed: "refreshToken am (refresh_token t) s2 = (Inr newToken, s3)"
    and saved: "saveToken am (arg_email args) newToken s3 = (Inr (), s4)"
  shows "use_google_account am args (log, s) =
           (Inr (Fields [(''status'', ''refreshing''),
                         (''message'', ''Token refreshed successfully, please retry the request'')]),
            (log @ [ValidateAccount (arg_email args) (arg_category args) (arg_description args),
                    ValidateToken (arg_email args) (arg_required_scopes args),
                    RefreshToken (refresh_token t),
                    SaveToken (arg_email args) newToken],
             s4))"
  using assms by (simp add: run_defs)

theorem expired_witness:
  "use_google_account (spec_manager demo_server) (demo_args [''read'']) ([], demo_state 100) =
     (Inr (Fields [(''status'', ''refreshing''),
                   (''message'', ''Token refreshed successfully, please retry the request'')]),
      ([ValidateAccount ''a@x.com'' (Some ''home'') (Some ''second''),
        ValidateToken ''a@x.com'' [''read''],
        RefreshToken (Some ''r1''),
        SaveToken ''a@x.com'' (demo_token\<lparr>access_token := ''a2'', expiry := 3700\<rparr>)],
       (demo_state 100)\<lparr>tokenStore := [(''a@x.com'', demo_token\<lparr>access_token := ''a2'', expiry := 3700\<rparr>)],
                         network := [RefreshCall ''r1'']\<rparr>))"
proof -
  let ?am = "spec_manager demo_server"
  let ?args = "demo_args [''read'']"
  let ?new = "demo_token\<lparr>access_token := ''a2'', expiry := 3700\<rparr>"
  let ?s3 = "(demo_state 100)\<lparr>network := [RefreshCall ''r1'']\<rparr>"
  let ?s4 = "(demo_state 100)\<lparr>tokenStore := [(''a@x.com'', ?new)], network := [RefreshCall ''r1'']\<rparr>"
  have h1: "validateAccount ?am (arg_email ?args) (arg_category ?args) (arg_description ?args) (demo_state 100)
            = (Inr \<lparr>acc_email = ''a@x.com'', acc_category = Some ''work'', acc_description = None, acc_created = 0\<rparr>, demo_state 100)"
    by (simp add: spec_defs demo_defs)
  have h2: "validateToken ?am (arg_email ?args) (arg_required_scopes ?args) (demo_state 100)
            = (Inr \<lparr>valid = False, token = Some demo_token, reason = Some ''Token expired''\<rparr>, demo_state 100)"
    by (simp add: spec_defs demo_defs)
  have h3: "refreshToken ?am (refresh_token demo_token) (demo_state 100) = (Inr ?new, ?s3)"
    by (simp add: spec_defs demo_defs Let_def)
  have h4: "saveToken ?am (arg_email ?args) ?new ?s3 = (Inr (), ?s4)"
    by (simp add: spec_defs demo_defs)
  from expired_token_is_refreshed_and_retry_requested [OF h1 h2 h3 h4, of "[]"]
  show ?thesis by (simp add: demo_args_def demo_token_def)
qed

text \<open>
  C1 as stated fails: for an account whose credential expired at 99, read at time 100 with
  the refresh token present, the answer is the request to retry, not the answer given for
  a valid credential.
\<close>

theorem expired_counterexample:
  "fst (use_google_account (spec_manager demo_server) (demo_args [''read'']) ([], demo_state 100)) =
     Inr (Fields [(''status'', ''refreshing''),
                  (''message'', ''Token refreshed successfully, please retry the request'')]) \<and>
   fst (use_google_account (spec_manager demo_server) (demo_args [''read'']) ([], demo_state 100)) \<noteq>
     Inr (Fields [(''status'', ''success''),
                  (''message'', ''Account is already authenticated with required scopes'')])"
  by (simp add: run_defs spec_defs demo_defs Let_def)

text \<open>
  C2, as the code has it. When the credential is unusable, is not reported as expired and
  no authorization code is supplied, the handler of use_google_account calls
  \<^verbatim>\<open>generateAuthUrl\<close> with exactly the required scopes of the request, and
  answers with the URL it gets back. The scopes granted before are not added.
\<close>

theorem authorization_requests_required_scopes:
  assumes registered:
      "validateAccount am (arg_email args) (arg_category args) (arg_description args) s = (Inr acct, s1)"
    and status: "validateToken am (arg_email args) (arg_required_scopes args) s1 = (Inr st, s2)"
    and unusable: "\<not> valid st \<or> token st = None"
    and not_expired: "token st = None \<or> reason st \<noteq> Some ''Token expired''"
    and no_code: "\<not> truthy (arg_auth_code args)"
    and url: "generateAuthUrl am (arg_required_scopes args) s2 = (Inr authUrl, s3)"
  shows "use_google_account am args (log, s) =
           (Inr (Fields [(''status'', ''auth_required''),
                         (''auth_url'', authUrl),
                         (''message'', ''Please complete authentication:''),
                         (''instructions'', authInstructions)]),
            (log @ [ValidateAccount (arg_email args) (arg_category args) (arg_description args),
                    ValidateToken (arg_email args) (arg_required_scopes args),
                    GenerateAuthUrl (arg_required_scopes args)],
             s3))"
  using assms by (auto simp add: run_defs)

lemma decimal_0: "decimal 0 = ''0''"
  by code_simp

theorem authorization_witness:
  "use_google_account (spec_manager demo_server) (demo_args [''write'']) ([], demo_state 50) =
     (Inr (Fields [(''status'', ''auth_required''),
                   (''auth_url'', ''https://auth.example/consent?scope=write&redirect_uri=urn:redirect&state=s0''),
                   (''message'', ''Please complete authentication:''),
                   (''instructions'', authInstructions)]),
      ([ValidateAccount ''a@x.com'' (Some ''home'') (Some ''second''),
        ValidateToken ''a@x.com'' [''write''],
        GenerateAuthUrl [''write'']],
       (demo_state 50)\<lparr>pending := [(''s0'', \<lparr>pa_scopes = [''write''], pa_issued = 50\<rparr>)]\<rparr>))"
proof -
  let ?am = "spec_manager demo_server"
  let ?args = "demo_args [''write'']"
  let ?st = "\<lparr>valid = False, token = None, reason = Some ''insufficient scope''\<rparr>"
  let ?s3 = "(demo_state 50)\<lparr>pending := [(''s0'', \<lparr>pa_scopes = [''write''], pa_issued = 50\<rparr>)]\<rparr>"
  have h1: "validateAccount ?am (arg_email ?args) (arg_category ?args) (arg_description ?args) (demo_state 50)
            = (Inr \<lparr>acc_email = ''a@x.com'', acc_category = Some ''work'', acc_description = None, acc_created = 0\<rparr>, demo_state 50)"
    by (simp add: spec_defs demo_defs)
  have h2: "validateToken ?am (arg_email ?args) (arg_required_scopes ?args) (demo_state 50) = (Inr ?st, demo_state 50)"
    by (simp add: spec_defs demo_defs)
  have h3: "\<not> valid ?st \<or> token ?st = None" by simp
  have h4: "token ?st = None \<or> reason ?st \<noteq> Some ''Token expired''" by simp
  have h5: "\<not> truthy (arg_auth_code ?args)" by (simp add: demo_args_def)
  have h6: "generateAuthUrl ?am (arg_required_scopes ?args) (demo_state 50)
            = (Inr ''https://auth.example/consent?scope=write&redirect_uri=urn:redirect&state=s0'', ?s3)"
    by (simp add: spec_defs demo_defs Let_def decimal_0)
  from authorization_requests_required_scopes [OF h1 h2 h3 h4 h5 h6, of "[]"]
  show ?thesis by (simp add: demo_args_def)
qed

text \<open>
  C2 as stated fails: the account holds a credential granted \<open>read\<close>; a request that
  requires \<open>write\<close> asks for an authorization URL for \<open>write\<close> alone, and the
  pending authorization records \<open>write\<close> alone.
\<close>

theorem authorization_counterexample:
  "map_option granted_scopes (map_of (tokenStore (demo_state 50)) ''a@x.com'') = Some [''read''] \<and>
   fst (snd (use_google_account (spec_manager demo_server) (demo_args [''write'']) ([], demo_state 50))) =
     [ValidateAccount ''a@x.com'' (Some ''home'') (Some ''second''),
      ValidateToken ''a@x.com'' [''write''],
      GenerateAuthUrl [''write'']] \<and>
   pending (snd (snd (use_google_account (spec_manager demo_server) (demo_args [''write'']) ([], demo_state 50)))) =
     [(''s0'', \<lparr>pa_scopes = [''write''], pa_issued = 50\<rparr>)]"
  by (simp add: run_defs spec_defs demo_defs Let_def decimal_0)

lemma single_caller_is_handler:
  "inTurns am [(args, Start)] ls =
     ([(args, Finished (fst (use_google_account am args ls)))], snd (use_google_account am args ls))"
  by (cases ls)
     (auto simp add: inTurns_def awaiting_def run_defs split: prod.splits sum.splits)

lemma everyCaller_round:
  assumes step: "\<And>a w ls. P (a, w) \<Longrightarrow> I ls \<Longrightarrow>
            Q (a, fst (segment am a w ls)) \<and> I (snd (segment am a w ls)) \<and>
            cnt (snd (segment am a w ls)) = cnt ls + k"
  shows "list_all P cs \<Longrightarrow> I ls \<Longrightarrow>
         list_all Q (fst (everyCaller am cs ls)) \<and> I (snd (everyCaller am cs ls)) \<and>
         cnt (snd (everyCaller am cs ls)) = cnt ls + k * length cs"
proof (induction cs arbitrary: ls)
  case Nil
  then show ?case by simp
next
  case (Cons c cs)
  obtain a w where c: "c = (a, w)" by (cases c)
  obtain w' ls' where seg: "segment am a w ls = (w', ls')" by (cases "segment am a w ls")
  from Cons.prems c have P: "P (a, w)" and rest: "list_all P cs" by simp_all
  from step [OF P Cons.prems(2)] seg
  have Q: "Q (a, w')" and I': "I ls'" and cnt': "cnt ls' = cnt ls + k" by simp_all
  obtain cs' ls'' where rec: "everyCaller am cs ls' = (cs', ls'')"
    by (cases "everyCaller am cs ls'")
  from Cons.IH [OF rest I'] rec
  have IH: "list_all Q cs'" "I ls''" "cnt ls'' = cnt ls' + k * length cs" by simp_all
  show ?case
    using Q IH cnt' by (simp add: c seg rec)
qed

lemma list_all_eq_replicate:
  "list_all (\<lambda>x. x = c) xs \<Longrightarrow> xs = replicate (length xs) c"
  by (induction xs) simp_all

lemma length_everyCaller: "length (fst (everyCaller am cs ls)) = length cs"
proof (induction cs arbitrary: ls)
  case Nil
  show ?case by simp
next
  case (Cons c cs)
  obtain a w where c: "c = (a, w)" by (cases c)
  obtain w' ls' where seg: "segment am a w ls = (w', ls')" by (cases "segment am a w ls")
  obtain cs' ls'' where rec: "everyCaller am cs ls' = (cs', ls'')"
    by (cases "everyCaller am cs ls'")
  from Cons.IH [of ls'] rec have "length cs' = length cs" by simp
  then show ?case by (simp add: c seg rec)
qed

lemma refreshCalls_snoc: "refreshCalls (xs @ [c]) = refreshCalls xs + (if isRefresh c then 1 else 0)"
  by (simp add: refreshCalls_def)

text \<open>
  C4, as the code has it. The handler of use_google_account holds no record of a refresh
  in flight: a caller that is told "Token expired" calls \<^verbatim>\<open>refreshToken\<close>
  itself when it resumes, whatever the other callers have done in between. For every
  account manager that keeps reporting the token as expired until a refreshed token is
  saved, n callers for the same account that take turns (each runs to its next await, in
  the order of arrival, before any of them runs again) all finish with the status
  "refreshing", and they make n calls of \<^verbatim>\<open>refreshToken\<close>, one each. A single
  caller run in turns is the handler run from beginning to end.
\<close>

theorem concurrent_callers_each_refresh:
  fixes am :: "'s account_manager" and unsaved :: "'s \<Rightarrow> bool"
  assumes registered:
      "\<forall>s. unsaved s \<longrightarrow>
         (\<exists>acct s'. validateAccount am (arg_email args) (arg_category args) (arg_description args) s
                       = (Inr acct, s') \<and> unsaved s')"
    and expired:
      "\<forall>s. unsaved s \<longrightarrow>
         (\<exists>s'. validateToken am (arg_email args) (arg_required_scopes args) s
                  = (Inr \<lparr>valid = False, token = Some t, reason = Some ''Token expired''\<rparr>, s') \<and>
               unsaved s')"
    and refreshed:
      "\<forall>s. unsaved s \<longrightarrow>
         (\<exists>newToken s'. refreshToken am (refresh_token t) s = (Inr newToken, s') \<and> unsaved s')"
    and saved: "\<forall>newToken s. \<exists>s'. saveToken am (arg_email args) newToken s = (Inr (), s')"
    and start: "unsaved s"
  shows "inTurns am [(args, Start)] (log, s) =
           ([(args, Finished (fst (use_google_account am args (log, s))))],
            snd (use_google_account am args (log, s))) \<and>
         fst (inTurns am (replicate n (args, Start)) (log, s)) =
           replicate n
             (args, Finished (Inr (Fields
                [(''status'', ''refreshing''),
                 (''message'', ''Token refreshed successfully, please retry the request'')]))) \<and>
         refreshCalls (fst (snd (inTurns am (replicate n (args, Start)) (log, s)))) =
           refreshCalls log + n \<and>
         fst (snd (segment am args
                     (Checked \<lparr>valid = False, token = Some t, reason = Some ''Token expired''\<rparr>)
                     (log', s'))) =
           log' @ [RefreshToken (refresh_token t)]"
proof -
  let ?I = "\<lambda>ls :: call list \<times> 's. unsaved (snd ls)"
  let ?cnt = "\<lambda>ls :: call list \<times> 's. refreshCalls (fst ls)"
  let ?status = "\<lparr>valid = False, token = Some t, reason = Some ''Token expired''\<rparr>"
  let ?done = "Finished (Inr (Fields
                [(''status'', ''refreshing''),
                 (''message'', ''Token refreshed successfully, please retry the request'')]))"
  let ?P0 = "\<lambda>c :: caller. c = (args, Start)"
  let ?P1 = "\<lambda>c :: caller. c = (args, Registered)"
  let ?P2 = "\<lambda>c :: caller. c = (args, Checked ?status)"
  let ?P3 = "\<lambda>c :: caller. fst c = args \<and> (\<exists>newToken. snd c = Refreshed newToken)"
  let ?P4 = "\<lambda>c :: caller. c = (args, ?done)"
  let ?cs0 = "replicate n (args, Start)"
  obtain cs1 ls1 where r1: "everyCaller am ?cs0 (log, s) = (cs1, ls1)"
    by (cases "everyCaller am ?cs0 (log, s)")
  obtain cs2 ls2 where r2: "everyCaller am cs1 ls1 = (cs2, ls2)"
    by (cases "everyCaller am cs1 ls1")
  obtain cs3 ls3 where r3: "everyCaller am cs2 ls2 = (cs3, ls3)"
    by (cases "everyCaller am cs2 ls2")
  obtain cs4 ls4 where r4: "everyCaller am cs3 ls3 = (cs4, ls4)"
    by (cases "everyCaller am cs3 ls3")
  have turns: "inTurns am ?cs0 (log, s) = (cs4, ls4)"
    by (simp add: inTurns_def r1 r2 r3 r4)
  have len: "length cs1 = n" "length cs2 = n" "length cs3 = n" "length cs4 = n"
    using length_everyCaller [of am ?cs0 "(log, s)"] length_everyCaller [of am cs1 ls1]
      length_everyCaller [of am cs2 ls2] length_everyCaller [of am cs3 ls3]
    by (simp_all add: r1 r2 r3 r4)
  have step1: "?P1 (a, fst (segment am a w ls)) \<and> ?I (snd (segment am a w ls)) \<and>
               ?cnt (snd (segment am a w ls)) = ?cnt ls + 0"
    if "?P0 (a, w)" "?I ls" for a w ls
  proof -
    from registered that(2) obtain acct s' where
      "validateAccount am (arg_email args) (arg_category args) (arg_description args) (snd ls)
         = (Inr acct, s')" "unsaved s'" by blast
    with that(1) show ?thesis
      by (simp add: awaiting_def invoke_def refreshCalls_snoc)
  qed
  have step2: "?P2 (a, fst (segment am a w ls)) \<and> ?I (snd (segment am a w ls)) \<and>
               ?cnt (snd (segment am a w ls)) = ?cnt ls + 0"
    if "?P1 (a, w)" "?I ls" for a w ls
  proof -
    from expired that(2) obtain s' where
      "validateToken am (arg_email args) (arg_required_scopes args) (snd ls) = (Inr ?status, s')"
      "unsaved s'" by blast
    with that(1) show ?thesis
      by (simp add: awaiting_def invoke_def refreshCalls_snoc)
  qed
  have step3: "?P3 (a, fst (segment am a w ls)) \<and> ?I (snd (segment am a w ls)) \<and>
               ?cnt (snd (segment am a w ls)) = ?cnt ls + 1"
    if "?P2 (a, w)" "?I ls" for a w ls
  proof -
    from refreshed that(2) obtain newToken s' where
      "refreshToken am (refresh_token t) (snd ls) = (Inr newToken, s')" "unsaved s'" by blast
    with that(1) show ?thesis
      by (simp add: awaiting_def invoke_def refreshCalls_snoc)
  qed
  have step4: "?P4 (a, fst (segment am a w ls)) \<and> True \<and>
               ?cnt (snd (segment am a w ls)) = ?cnt ls + 0"
    if "?P3 (a, w)" "True" for a w ls
  proof -
    from that(1) obtain newToken where w: "a = args" "w = Refreshed newToken" by auto
    from saved obtain s' where "saveToken am (arg_email args) newToken (snd ls) = (Inr (), s')"
      by blast
    with w show ?thesis
      by (simp add: awaiting_def invoke_def refreshCalls_snoc)
  qed
  have start0: "list_all ?P0 ?cs0" by (simp add: list_all_iff)
  have I0: "?I (log, s)" using start by simp
  from everyCaller_round [of ?P0 ?I ?P1 am ?cnt 0, OF step1 start0 I0]
  have a1: "list_all ?P1 cs1" "?I ls1" "?cnt ls1 = refreshCalls log"
    by (simp_all add: r1)
  from everyCaller_round [of ?P1 ?I ?P2 am ?cnt 0, OF step2 a1(1) a1(2)]
  have a2: "list_all ?P2 cs2" "?I ls2" "?cnt ls2 = refreshCalls log"
    using a1(3) by (simp_all add: r2)
  from everyCaller_round [of ?P2 ?I ?P3 am ?cnt 1, OF step3 a2(1) a2(2)]
  have a3: "list_all ?P3 cs3" "?cnt ls3 = refreshCalls log + n"
    using a2(3) len by (simp_all add: r3)
  from everyCaller_round [of ?P3 "\<lambda>ls. True" ?P4 am ?cnt 0 cs3 ls3, OF step4 a3(1)]
  have a4: "list_all ?P4 cs4" "?cnt ls4 = refreshCalls log + n"
    using a3(2) by (simp_all add: r4)
  from list_all_eq_replicate [OF a4(1)] len have "cs4 = replicate n (args, ?done)" by simp
  moreover have "fst (snd (segment am args
                     (Checked \<lparr>valid = False, token = Some t, reason = Some ''Token expired''\<rparr>)
                     (log', s'))) =
           log' @ [RefreshToken (refresh_token t)]"
    by (simp add: awaiting_def invoke_def split: prod.splits sum.splits)
  ultimately show ?thesis using a4(2) by (simp add: turns single_caller_is_handler)
qed


theorem concurrent_callers_witness:
  "fst (inTurns (spec_manager demo_server) (replicate 3 (demo_args [''read''], Start)) ([], demo_state 100)) =
     replicate 3
       (demo_args [''read''],
        Finished (Inr (Fields
          [(''status'', ''refreshing''),
           (''message'', ''Token refreshed successfully, please retry the request'')]))) \<and>
   refreshCalls (fst (snd (inTurns (spec_manager demo_server)
                             (replicate 3 (demo_args [''read''], Start)) ([], demo_state 100)))) = 3"
proof -
  let ?am = "spec_manager demo_server"
  let ?args = "demo_args [''read'']"
  let ?unsaved = "\<lambda>s. tokenStore s = [(''a@x.com'', demo_token)] \<and> clock s = 100"
  have h1: "\<forall>s. ?unsaved s \<longrightarrow>
         (\<exists>acct s'. validateAccount ?am (arg_email ?args) (arg_category ?args) (arg_description ?args) s
                       = (Inr acct, s') \<and> ?unsaved s')"
    by (auto simp add: spec_manager_def spec_validateAccount_def demo_args_def Let_def
          split: option.splits)
  have h2: "\<forall>s. ?unsaved s \<longrightarrow>
         (\<exists>s'. validateToken ?am (arg_email ?args) (arg_required_scopes ?args) s
                  = (Inr \<lparr>valid = False, token = Some demo_token, reason = Some ''Token expired''\<rparr>, s') \<and>
               ?unsaved s')"
    by (simp add: spec_manager_def spec_validateToken_def isSatisfied_def demo_args_def demo_token_def)
  have h3: "\<forall>s. ?unsaved s \<longrightarrow>
         (\<exists>newToken s'. refreshToken ?am (refresh_token demo_token) s = (Inr newToken, s') \<and> ?unsaved s')"
    by (simp add: spec_manager_def spec_refreshToken_def demo_server_def demo_token_def Let_def)
  have h4: "\<forall>newToken s. \<exists>s'. saveToken ?am (arg_email ?args) newToken s = (Inr (), s')"
    by (simp add: spec_manager_def spec_saveToken_def)
  have h5: "?unsaved (demo_state 100)"
    by (simp add: demo_state_def)
  from concurrent_callers_each_refresh [of ?unsaved ?am ?args demo_token "demo_state 100" "[]" 3,
         OF h1 h2 h3 h4 h5]
  show ?thesis by (simp add: refreshCalls_def)
qed

text \<open>
  C4 as stated fails: two callers for the account whose credential expired at 99, taking
  turns at time 100, make two calls of \<^verbatim>\<open>refreshToken\<close>, and the authorization
  server receives two refresh requests.
\<close>

theorem concurrent_callers_counterexample:
  "refreshCalls (fst (snd (inTurns (spec_manager demo_server)
                             [(demo_args [''read''], Start), (demo_args [''read''], Start)]
                             ([], demo_state 100)))) = 2 \<and>
   network (snd (snd (inTurns (spec_manager demo_server)
                        [(demo_args [''read''], Start), (demo_args [''read''], Start)]
                        ([], demo_state 100)))) = [RefreshCall ''r1'', RefreshCall ''r1'']"
  by (simp add: inTurns_def awaiting_def invoke_def spec_defs demo_defs refreshCalls_def Let_def)




section \<open>Properties of the account module as specified\<close>

lemma find_snoc:
  "find P (xs @ [a]) = (case find P xs of Some x \<Rightarrow> Some x | None \<Rightarrow> (if P a then Some a else None))"
  by (induction xs) simp_all

text \<open>
  C5. Registering an account a second time, with any category and description, leaves the
  state of the registry as the first registration left it and returns the same record; an
  account that was absent before holds the category and description of the first
  registration afterwards.
\<close>

theorem register_is_idempotent:
  "snd (spec_validateAccount e c2 d2 (snd (spec_validateAccount e c1 d1 s))) =
     snd (spec_validateAccount e c1 d1 s) \<and>
   fst (spec_validateAccount e c2 d2 (snd (spec_validateAccount e c1 d1 s))) =
     fst (spec_validateAccount e c1 d1 s) \<and>
   storedAccount (snd (spec_validateAccount e c2 d2 (snd (spec_validateAccount e c1 d1 s)))) e =
     storedAccount (snd (spec_validateAccount e c1 d1 s)) e \<and>
   (storedAccount s e = None \<longrightarrow>
      storedAccount (snd (spec_validateAccount e c2 d2 (snd (spec_validateAccount e c1 d1 s)))) e =
        Some \<lparr>acc_email = e, acc_category = c1, acc_description = d1, acc_created = clock s\<rparr>)"
proof (cases "find (\<lambda>a. acc_email a = e) (registry s)")
  case None
  then show ?thesis
    by (simp add: spec_validateAccount_def storedAccount_def Let_def find_snoc)
next
  case (Some a)
  then show ?thesis
    by (simp add: spec_validateAccount_def storedAccount_def)
qed

theorem register_witness:
  "storedAccount (demo_state 50\<lparr>registry := []\<rparr>) ''a@x.com'' = None \<and>
   storedAccount (snd (spec_validateAccount ''a@x.com'' (Some ''home'') (Some ''second'')
                   (snd (spec_validateAccount ''a@x.com'' (Some ''work'') (Some ''first'')
                          (demo_state 50\<lparr>registry := []\<rparr>))))) ''a@x.com'' =
     Some \<lparr>acc_email = ''a@x.com'', acc_category = Some ''work'', acc_description = Some ''first'',
           acc_created = 50\<rparr>"
proof -
  have absent: "storedAccount (demo_state 50\<lparr>registry := []\<rparr>) ''a@x.com'' = None"
    by (simp add: storedAccount_def demo_state_def)
  have first_wins:
    "storedAccount (demo_state 50\<lparr>registry := []\<rparr>) ''a@x.com'' = None \<longrightarrow>
     storedAccount (snd (spec_validateAccount ''a@x.com'' (Some ''home'') (Some ''second'')
                     (snd (spec_validateAccount ''a@x.com'' (Some ''work'') (Some ''first'')
                            (demo_state 50\<lparr>registry := []\<rparr>))))) ''a@x.com'' =
       Some \<lparr>acc_email = ''a@x.com'', acc_category = Some ''work'', acc_description = Some ''first'',
             acc_created = clock (demo_state 50\<lparr>registry := []\<rparr>)\<rparr>"
    using register_is_idempotent
         [of "''a@x.com''" "Some ''home''" "Some ''second''" "Some ''work''" "Some ''first''"
             "demo_state 50\<lparr>registry := []\<rparr>"]
    by blast
  have now: "clock (demo_state 50\<lparr>registry := []\<rparr>) = 50"
    by (simp add: demo_state_def)
  show ?thesis using first_wins absent now by simp
qed

lemma isSatisfied_subset: "isSatisfied granted required \<longleftrightarrow> set required \<subseteq> set granted"
  by (auto simp add: isSatisfied_def list_all_iff)

text \<open>
  C6. For an account whose stored credential was granted all required scopes and whose
  access token has not expired, validation reports valid with the credential, the handler
  of use_google_account answers that the account is already authenticated, it calls
  neither \<^verbatim>\<open>refreshToken\<close> nor \<^verbatim>\<open>getTokenFromCode\<close>, and nothing is sent
  to the authorization server; the token store is unchanged.
\<close>

theorem valid_credential_needs_no_network:
  assumes stored: "map_of (tokenStore s) (arg_email args) = Some t"
    and scopes: "set (arg_required_scopes args) \<subseteq> set (granted_scopes t)"
    and fresh: "clock s \<le> expiry t"
  shows "fst (spec_validateToken (arg_email args) (arg_required_scopes args) s) =
           Inr \<lparr>valid = True, token = Some t, reason = None\<rparr> \<and>
         fst (use_google_account (spec_manager srv) args (log, s)) =
           Inr (Fields [(''status'', ''success''),
                        (''message'', ''Account is already authenticated with required scopes'')]) \<and>
         fst (snd (use_google_account (spec_manager srv) args (log, s))) =
           log @ [ValidateAccount (arg_email args) (arg_category args) (arg_description args),
                  ValidateToken (arg_email args) (arg_required_scopes args)] \<and>
         network (snd (snd (use_google_account (spec_manager srv) args (log, s)))) = network s \<and>
         tokenStore (snd (snd (use_google_account (spec_manager srv) args (log, s)))) = tokenStore s"
proof -
  have sat: "isSatisfied (granted_scopes t) (arg_required_scopes args)"
    using scopes by (simp add: isSatisfied_subset)
  have notexp: "\<not> expiry t < clock s" using fresh by simp
  show ?thesis
  proof (cases "find (\<lambda>a. acc_email a = arg_email args) (registry s)")
    case None
    then show ?thesis
      using stored sat notexp
      by (simp add: run_defs spec_manager_def spec_validateAccount_def spec_validateToken_def Let_def)
  next
    case (Some a)
    then show ?thesis
      using stored sat notexp
      by (simp add: run_defs spec_manager_def spec_validateAccount_def spec_validateToken_def)
  qed
qed

theorem valid_credential_witness:
  "use_google_account (spec_manager demo_server)
     (demo_args [''read''] \<lparr>arg_auth_code := Some ''code1''\<rparr>) ([], demo_state 50) =
     (Inr (Fields [(''status'', ''success''),
                   (''message'', ''Account is already authenticated with required scopes'')]),
      ([ValidateAccount ''a@x.com'' (Some ''home'') (Some ''second''),
        ValidateToken ''a@x.com'' [''read'']],
       demo_state 50)) \<and>
   network (demo_state 50) = []"
proof -
  let ?args = "demo_args [''read''] \<lparr>arg_auth_code := Some ''code1''\<rparr>"
  have h1: "map_of (tokenStore (demo_state 50)) (arg_email ?args) = Some demo_token"
    by (simp add: demo_defs)
  have h2: "set (arg_required_scopes ?args) \<subseteq> set (granted_scopes demo_token)"
    by (simp add: demo_defs)
  have h3: "clock (demo_state 50) \<le> expiry demo_token"
    by (simp add: demo_defs)
  have same: "snd (snd (use_google_account (spec_manager demo_server) ?args ([], demo_state 50))) = demo_state 50"
    by (simp add: run_defs spec_defs demo_defs)
  from valid_credential_needs_no_network [OF h1 h2 h3, of demo_server "[]"] same
  show ?thesis
    by (cases "use_google_account (spec_manager demo_server) ?args ([], demo_state 50)")
       (auto simp add: demo_defs)
qed

text \<open>
  C7. After forget_google_account, the credential and the account record of the address
  are gone: validation with any required scopes reports not valid with the reason
  "no credential", and the account list no longer shows the address.
\<close>

theorem revoke_removes_credential_and_account:
  "fst (forget_google_account (spec_manager srv) args (log, s)) =
     Inr (Fields [(''status'', ''success''),
                  (''message'', ''Successfully removed account '' @ arg_email args
                                @ '' and deleted associated tokens'')]) \<and>
   fst (snd (forget_google_account (spec_manager srv) args (log, s))) =
     log @ [RemoveAccount (arg_email args)] \<and>
   map_of (tokenStore (snd (snd (forget_google_account (spec_manager srv) args (log, s)))))
     (arg_email args) = None \<and>
   storedAccount (snd (snd (forget_google_account (spec_manager srv) args (log, s)))) (arg_email args) = None \<and>
   fst (spec_validateToken (arg_email args) required
          (snd (snd (forget_google_account (spec_manager srv) args (log, s))))) =
     Inr \<lparr>valid = False, token = None, reason = Some ''no credential''\<rparr> \<and>
   arg_email args \<notin> set (listedEmails (snd (snd (forget_google_account (spec_manager srv) args (log, s)))))"
proof -
  have gone: "map_of (AList.delete e xs) e = None" for e :: string and xs :: "(string \<times> token) list"
    by (simp add: AList.delete_conv')
  have absent: "find (\<lambda>a. acc_email a = e) (filter (\<lambda>a. acc_email a \<noteq> e) xs) = None" for e xs
    by (simp add: find_None_iff)
  show ?thesis
    by (auto simp add: forget_google_account_def andThen_def invoke_def returnValue_def spec_manager_def
          spec_removeAccount_def spec_validateToken_def spec_listAccounts_def listedEmails_def
          storedAccount_def gone absent)
qed

theorem revoke_witness:
  "listedEmails (demo_state 50) = [''a@x.com''] \<and>
   listedEmails (snd (snd (forget_google_account (spec_manager demo_server) (demo_args []) ([], demo_state 50)))) = [] \<and>
   fst (spec_validateToken ''a@x.com'' [''read'']
          (snd (snd (forget_google_account (spec_manager demo_server) (demo_args []) ([], demo_state 50))))) =
     Inr \<lparr>valid = False, token = None, reason = Some ''no credential''\<rparr>"
proof -
  have before: "listedEmails (demo_state 50) = [''a@x.com'']"
    by (simp add: listedEmails_def spec_listAccounts_def demo_defs)
  have after: "listedEmails (snd (snd (forget_google_account (spec_manager demo_server) (demo_args []) ([], demo_state 50)))) = []"
    by (simp add: forget_google_account_def andThen_def invoke_def returnValue_def spec_manager_def
          spec_removeAccount_def listedEmails_def spec_listAccounts_def demo_defs)
  from revoke_removes_credential_and_account [of demo_server "demo_args []" "[]" "demo_state 50" "[''read'']"]
    before after
  show ?thesis by (simp add: demo_args_def)
qed

end
